theory Spec2Isabelle
  imports Main "HOL-Library.Word" "HOL-Library.AList"
begin

section \<open>The native bridge of jetty-setuid\<close>

text \<open>
  The C file \<^verbatim>\<open>org_eclipse_jetty_setuid_SetUID.c\<close> holds nine native entry points and
  seven helpers. Each entry point calls one libc function and moves the result into a
  Java object through the reflective calls of the host interface. The embedding follows
  the file function by function and keeps its names.

  Three things lie outside the file: libc and the kernel, the Java classes that the
  host has loaded, and the host interface itself. The first two are parameters of every
  definition (\<open>L\<close> and \<open>H\<close>); the calls of the host interface are modelled below, one
  definition for each call the file makes.
\<close>

subsection \<open>C and Java data\<close>

type_synonym jint = "32 word"

text \<open>
  Modelled from the spec: the types \<^verbatim>\<open>uid_t\<close>, \<^verbatim>\<open>gid_t\<close>, \<^verbatim>\<open>mode_t\<close> and
  \<^verbatim>\<open>rlim_t\<close> are declared in system headers that are not part of the sources. The
  identity and mask types are taken as 32-bit unsigned, and \<^verbatim>\<open>rlim_t\<close> as 64-bit
  unsigned: the specification speaks of limit values above \<open>2^31 - 1\<close> that are cut down
  modulo \<open>2^32\<close>, so the limit type is wider than \<^verbatim>\<open>int\<close>.
\<close>

type_synonym uid_t = "32 word"
type_synonym gid_t = "32 word"
type_synonym mode_t = "32 word"
type_synonym rlim_t = "64 word"

text \<open>\<^verbatim>\<open>struct passwd\<close>, \<^verbatim>\<open>struct group\<close> and \<^verbatim>\<open>struct rlimit\<close>. The member array
  \<^verbatim>\<open>gr_mem\<close> is a pointer that may be null (\<open>None\<close>); when it is not, it points to
  cells that each hold a string or the null pointer.\<close>

record passwd =
  pw_name :: string
  pw_passwd :: string
  pw_uid :: uid_t
  pw_gid :: gid_t
  pw_gecos :: string
  pw_dir :: string
  pw_shell :: string

record group =
  gr_name :: string
  gr_passwd :: string
  gr_gid :: gid_t
  gr_mem :: "string option list option"

record rlimit =
  rlim_cur :: rlim_t
  rlim_max :: rlim_t

text \<open>The libc functions the file calls, over a kernel state \<open>'k\<close>. A lookup returns a
  pointer to an entry or null; \<^verbatim>\<open>getrlimit\<close> returns its status and what it left in the
  caller's struct.\<close>

record 'k libc =
  setuid :: "uid_t \<Rightarrow> 'k \<Rightarrow> jint \<times> 'k"
  setgid :: "gid_t \<Rightarrow> 'k \<Rightarrow> jint \<times> 'k"
  umask :: "mode_t \<Rightarrow> 'k \<Rightarrow> mode_t \<times> 'k"
  getpwnam :: "string \<Rightarrow> 'k \<Rightarrow> passwd option"
  getpwuid :: "uid_t \<Rightarrow> 'k \<Rightarrow> passwd option"
  getgrnam :: "string \<Rightarrow> 'k \<Rightarrow> group option"
  getgrgid :: "gid_t \<Rightarrow> 'k \<Rightarrow> group option"
  getrlimit_nofile :: "'k \<Rightarrow> jint \<times> rlimit"
  setrlimit_nofile :: "rlimit \<Rightarrow> 'k \<Rightarrow> jint \<times> 'k"

text \<open>Java values as far as the file handles them: the null reference, an \<^verbatim>\<open>int\<close>, a
  string and an array. Strings and string arrays are never shared between two objects
  here, so they are values rather than heap cells, and storing an element returns the
  array with that element replaced.\<close>

datatype jvalue = JNull | JInt jint | JString string | JArray "jvalue list"

datatype jref = Null | Ref nat

record jobject =
  obj_class :: string
  obj_fields :: "(string \<times> jvalue) list"

text \<open>A loaded class: its instance fields and methods, each a name with a type
  signature, and whether constructing an instance succeeds.\<close>

record jclass_decl =
  cfields :: "(string \<times> string) list"
  cmethods :: "(string \<times> string) list"
  instantiable :: bool

type_synonym host = "string \<rightharpoonup> jclass_decl"

type_synonym jclass = "string option"
type_synonym jmethodID = "(string \<times> string) option"
type_synonym jfieldID = "(string \<times> string) option"

text \<open>The state a native call works on: the Java heap, the exceptions this code has
  raised with \<^verbatim>\<open>ThrowNew\<close> (class and message, oldest first) and the kernel.\<close>

record 'k process =
  heap :: "jobject list"
  thrown :: "(string \<times> string) list"
  kernel :: 'k

subsection \<open>Results\<close>

text \<open>
  A step either returns a value or leaves defined behaviour: a host call on a null
  handle, a write past the end of a buffer, a read past the end of an array. What the
  process does after that is not determined by the file, so the run stops there with
  the state it had reached.
\<close>

datatype 'a res = Val 'a | Undef string

type_synonym ('a, 'k) jni = "'k process \<Rightarrow> 'a res \<times> 'k process"

definition ret :: "'a \<Rightarrow> ('a, 'k) jni" where
  "ret a s = (Val a, s)"

definition undef :: "string \<Rightarrow> ('a, 'k) jni" where
  "undef what s = (Undef what, s)"

definition jbind :: "('a, 'k) jni \<Rightarrow> ('a \<Rightarrow> ('b, 'k) jni) \<Rightarrow> ('b, 'k) jni" where
  "jbind m f s = (case m s of (Val a, s') \<Rightarrow> f a s' | (Undef what, s') \<Rightarrow> (Undef what, s'))"

definition libc_read :: "('k \<Rightarrow> 'a) \<Rightarrow> ('a, 'k) jni" where
  "libc_read f s = (Val (f (kernel s)), s)"

definition libc_call :: "('k \<Rightarrow> 'a \<times> 'k) \<Rightarrow> ('a, 'k) jni" where
  "libc_call f s = (case f (kernel s) of (r, k') \<Rightarrow> (Val r, s\<lparr>kernel := k'\<rparr>))"

subsection \<open>The host interface\<close>

text \<open>
  One definition for each function of the host's native interface that the file calls.
  \<^verbatim>\<open>DeleteLocalRef\<close>, \<^verbatim>\<open>ReleaseStringUTFChars\<close> and the copy flag of
  \<^verbatim>\<open>GetStringUTFChars\<close> only manage references and buffers; they have no effect on
  the state above and are left out. An exception that the host raises on its own for a
  failed lookup is not recorded: \<open>thrown\<close> holds what the file itself throws.
\<close>

definition FindClass :: "host \<Rightarrow> string \<Rightarrow> (jclass, 'k) jni" where
  "FindClass H name = ret (if H name = None then None else Some name)"

definition GetMethodID :: "host \<Rightarrow> jclass \<Rightarrow> string \<Rightarrow> string \<Rightarrow> (jmethodID, 'k) jni" where
  "GetMethodID H clazz name sig =
     (case clazz of
        None \<Rightarrow> undef ''GetMethodID: null class''
      | Some c \<Rightarrow>
          (case H c of
             None \<Rightarrow> undef ''GetMethodID: invalid class''
           | Some d \<Rightarrow> ret (if (name, sig) \<in> set (cmethods d) then Some (name, sig) else None)))"

definition GetFieldID :: "host \<Rightarrow> jclass \<Rightarrow> string \<Rightarrow> string \<Rightarrow> (jfieldID, 'k) jni" where
  "GetFieldID H clazz name sig =
     (case clazz of
        None \<Rightarrow> undef ''GetFieldID: null class''
      | Some c \<Rightarrow>
          (case H c of
             None \<Rightarrow> undef ''GetFieldID: invalid class''
           | Some d \<Rightarrow> ret (if (name, sig) \<in> set (cfields d) then Some (name, sig) else None)))"

definition default_value :: "string \<Rightarrow> jvalue" where
  "default_value sig = (if sig = ''I'' then JInt 0 else JNull)"

definition new_instance :: "string \<Rightarrow> jclass_decl \<Rightarrow> jobject" where
  "new_instance c d =
     \<lparr>obj_class = c, obj_fields = map (\<lambda>(n, sig). (n, default_value sig)) (cfields d)\<rparr>"

definition NewObject :: "host \<Rightarrow> jclass \<Rightarrow> jmethodID \<Rightarrow> (jref, 'k) jni" where
  "NewObject H clazz methodID =
     (case clazz of
        None \<Rightarrow> undef ''NewObject: null class''
      | Some c \<Rightarrow>
          (case methodID of
             None \<Rightarrow> undef ''NewObject: null methodID''
           | Some m \<Rightarrow>
               (case H c of
                  None \<Rightarrow> undef ''NewObject: invalid class''
                | Some d \<Rightarrow>
                    (if instantiable d
                     then (\<lambda>s. (Val (Ref (length (heap s))),
                                s\<lparr>heap := heap s @ [new_instance c d]\<rparr>))
                     else ret Null))))"

definition GetObjectClass :: "jref \<Rightarrow> (jclass, 'k) jni" where
  "GetObjectClass obj =
     (case obj of
        Null \<Rightarrow> undef ''GetObjectClass: null object''
      | Ref r \<Rightarrow>
          (\<lambda>s. if r < length (heap s) then (Val (Some (obj_class (heap s ! r))), s)
                else (Undef ''GetObjectClass: invalid reference'', s)))"

definition put_field :: "string \<Rightarrow> jvalue \<Rightarrow> jobject \<Rightarrow> jobject" where
  "put_field name v ob = ob\<lparr>obj_fields := AList.update name v (obj_fields ob)\<rparr>"

definition get_field :: "jobject \<Rightarrow> string \<Rightarrow> jvalue option" where
  "get_field ob name = map_of (obj_fields ob) name"

definition SetObjectField :: "jref \<Rightarrow> jfieldID \<Rightarrow> jvalue \<Rightarrow> (unit, 'k) jni" where
  "SetObjectField obj fieldID v =
     (case fieldID of
        None \<Rightarrow> undef ''SetObjectField: null fieldID''
      | Some (name, sig) \<Rightarrow>
          (case obj of
             Null \<Rightarrow> undef ''SetObjectField: null object''
           | Ref r \<Rightarrow>
               (\<lambda>s. if r < length (heap s)
                     then (Val (), s\<lparr>heap := (heap s)[r := put_field name v (heap s ! r)]\<rparr>)
                     else (Undef ''SetObjectField: invalid reference'', s))))"

definition SetIntField :: "jref \<Rightarrow> jfieldID \<Rightarrow> jint \<Rightarrow> (unit, 'k) jni" where
  "SetIntField obj fieldID v =
     (case fieldID of
        None \<Rightarrow> undef ''SetIntField: null fieldID''
      | Some (name, sig) \<Rightarrow>
          (case obj of
             Null \<Rightarrow> undef ''SetIntField: null object''
           | Ref r \<Rightarrow>
               (\<lambda>s. if r < length (heap s)
                     then (Val (), s\<lparr>heap := (heap s)[r := put_field name (JInt v) (heap s ! r)]\<rparr>)
                     else (Undef ''SetIntField: invalid reference'', s))))"

definition GetIntField :: "jref \<Rightarrow> jfieldID \<Rightarrow> (jint, 'k) jni" where
  "GetIntField obj fieldID =
     (case fieldID of
        None \<Rightarrow> undef ''GetIntField: null fieldID''
      | Some (name, sig) \<Rightarrow>
          (case obj of
             Null \<Rightarrow> undef ''GetIntField: null object''
           | Ref r \<Rightarrow>
               (\<lambda>s. if r < length (heap s)
                     then (case get_field (heap s ! r) name of
                             Some (JInt v) \<Rightarrow> (Val v, s)
                           | _ \<Rightarrow> (Undef ''GetIntField: not an int field'', s))
                     else (Undef ''GetIntField: invalid reference'', s))))"

definition NewStringUTF :: "string \<Rightarrow> jvalue" where
  "NewStringUTF bytes = JString bytes"

definition NewObjectArray :: "nat \<Rightarrow> jclass \<Rightarrow> jvalue \<Rightarrow> (jvalue list, 'k) jni" where
  "NewObjectArray n elementClass initialElement =
     (case elementClass of
        None \<Rightarrow> undef ''NewObjectArray: null class''
      | Some c \<Rightarrow> ret (replicate n initialElement))"

definition SetObjectArrayElement :: "jvalue list \<Rightarrow> nat \<Rightarrow> jvalue \<Rightarrow> jvalue list res" where
  "SetObjectArrayElement arr i v =
     (if i < length arr then Val (arr[i := v])
      else Undef ''SetObjectArrayElement: index out of bounds'')"

definition ThrowNew :: "string \<Rightarrow> string \<Rightarrow> (unit, 'k) jni" where
  "ThrowNew clazz msg s = (Val (), s\<lparr>thrown := thrown s @ [(clazz, msg)]\<rparr>)"

subsection \<open>Formatting\<close>

text \<open>Every message is written with \<^verbatim>\<open>sprintf\<close> into \<^verbatim>\<open>char strErr[255]\<close>: the text
  and its terminating zero byte have to fit. \<open>printf_d\<close> is the conversion \<^verbatim>\<open>%d\<close>.\<close>

definition sprintf_strErr :: "string \<Rightarrow> (string, 'k) jni" where
  "sprintf_strErr text = (if length text < 255 then ret text else undef ''sprintf: strErr overflow'')"

fun dec_nat :: "nat \<Rightarrow> string" where
  "dec_nat n =
     (if n < 10 then [''0123456789'' ! n]
      else dec_nat (n div 10) @ [''0123456789'' ! (n mod 10)])"

declare dec_nat.simps [simp del]

definition printf_d :: "jint \<Rightarrow> string" where
  "printf_d x = (if sint x < 0 then CHR ''-'' # dec_nat (nat (- sint x)) else dec_nat (nat (sint x)))"

subsection \<open>Helper functions of the file\<close>

definition throwNewJavaException :: "host \<Rightarrow> string \<Rightarrow> string \<Rightarrow> (unit, 'k) jni" where
  "throwNewJavaException H name msg =
     jbind (FindClass H name) (\<lambda>clazz.
       case clazz of
         Some c \<Rightarrow> ThrowNew c msg
       | None \<Rightarrow> ret ())"

definition throwNewJavaSecurityException :: "host \<Rightarrow> string \<Rightarrow> (unit, 'k) jni" where
  "throwNewJavaSecurityException H msg =
     throwNewJavaException H ''java/lang/SecurityException'' msg"

definition getJavaMethodId :: "host \<Rightarrow> jclass \<Rightarrow> string \<Rightarrow> string \<Rightarrow> (jmethodID, 'k) jni" where
  "getJavaMethodId H clazz name sig =
     jbind (GetMethodID H clazz name sig) (\<lambda>methodId.
       case methodId of
         None \<Rightarrow>
           jbind (sprintf_strErr (''Java Method is not found: '' @ name @ '' !!!'')) (\<lambda>strErr.
           jbind (throwNewJavaSecurityException H strErr) (\<lambda>_.
           ret None))
       | Some m \<Rightarrow> ret (Some m))"

definition getJavaFieldInt :: "host \<Rightarrow> jref \<Rightarrow> string \<Rightarrow> (jint, 'k) jni" where
  "getJavaFieldInt H obj name =
     jbind (GetObjectClass obj) (\<lambda>clazz.
     jbind (GetFieldID H clazz name ''I'') (\<lambda>fieldId.
     jbind (case fieldId of
              None \<Rightarrow>
                jbind (sprintf_strErr (''Java Object Field is not found: int '' @ name @ '' !!!''))
                  (\<lambda>strErr. throwNewJavaSecurityException H strErr)
            | Some f \<Rightarrow> ret ()) (\<lambda>_.
     GetIntField obj fieldId)))"

definition setJavaFieldInt :: "host \<Rightarrow> jref \<Rightarrow> string \<Rightarrow> jint \<Rightarrow> (unit, 'k) jni" where
  "setJavaFieldInt H obj name v =
     jbind (GetObjectClass obj) (\<lambda>clazz.
     jbind (GetFieldID H clazz name ''I'') (\<lambda>fieldId.
     jbind (case fieldId of
              None \<Rightarrow>
                jbind (sprintf_strErr (''Java Object Field is not found: int '' @ name @ '' !!!''))
                  (\<lambda>strErr. throwNewJavaSecurityException H strErr)
            | Some f \<Rightarrow> ret ()) (\<lambda>_.
     SetIntField obj fieldId v)))"

definition setJavaFieldString :: "host \<Rightarrow> jref \<Rightarrow> string \<Rightarrow> string \<Rightarrow> (unit, 'k) jni" where
  "setJavaFieldString H obj name v =
     jbind (GetObjectClass obj) (\<lambda>clazz.
     jbind (GetFieldID H clazz name ''Ljava/lang/String;'') (\<lambda>fieldId.
     jbind (case fieldId of
              None \<Rightarrow>
                jbind (sprintf_strErr (''Java Object Field is not found: String '' @ name @ '' !!!''))
                  (\<lambda>strErr. throwNewJavaSecurityException H strErr)
            | Some f \<Rightarrow> ret ()) (\<lambda>_.
     SetObjectField obj fieldId (NewStringUTF v))))"

subsection \<open>Privilege changes\<close>

text \<open>The casts between \<^verbatim>\<open>jint\<close> and the 32-bit types of the system calls keep every
  bit, so they do not show in the model.\<close>

definition Java_org_mortbay_setuid_SetUID_setuid :: "'k libc \<Rightarrow> jint \<Rightarrow> (jint, 'k) jni" where
  "Java_org_mortbay_setuid_SetUID_setuid L uid = libc_call (setuid L uid)"

definition Java_org_mortbay_setuid_SetUID_setumask :: "'k libc \<Rightarrow> jint \<Rightarrow> (jint, 'k) jni" where
  "Java_org_mortbay_setuid_SetUID_setumask L msk = libc_call (umask L msk)"

definition Java_org_mortbay_setuid_SetUID_setgid :: "'k libc \<Rightarrow> jint \<Rightarrow> (jint, 'k) jni" where
  "Java_org_mortbay_setuid_SetUID_setgid L gid = libc_call (setgid L gid)"

subsection \<open>User lookups\<close>

text \<open>The argument of a lookup by name is the Java string, given by its bytes; the
  string fields of a database entry are C strings and never null.\<close>

definition GetStringUTFChars :: "string \<Rightarrow> (string, 'k) jni" where
  "GetStringUTFChars name = ret name"

definition Java_org_mortbay_setuid_SetUID_getpwnam ::
  "host \<Rightarrow> 'k libc \<Rightarrow> string \<Rightarrow> (jref, 'k) jni" where
  "Java_org_mortbay_setuid_SetUID_getpwnam H L name =
     jbind (GetStringUTFChars name) (\<lambda>pname.
     jbind (libc_read (getpwnam L pname)) (\<lambda>pw_ptr.
       case pw_ptr of
         None \<Rightarrow>
           jbind (sprintf_strErr (''User '' @ pname @ '' is not found!!!'')) (\<lambda>strErr.
           jbind (throwNewJavaSecurityException H strErr) (\<lambda>_.
           ret Null))
       | Some pw \<Rightarrow>
           jbind (FindClass H ''org/mortbay/setuid/Passwd'') (\<lambda>cls.
             if cls = None
             then jbind (throwNewJavaSecurityException H
                           ''Class: org.mortbay.setuid.Passwd is not found!!!'') (\<lambda>_.
                  ret Null)
             else
               jbind (getJavaMethodId H cls ''<init>'' ''()V'') (\<lambda>constructorMethod.
               jbind (NewObject H cls constructorMethod) (\<lambda>retVal.
                 if retVal = Null
                 then jbind (throwNewJavaSecurityException H
                               ''Object Construction error of Class: org.mortbay.setuid.Passwd!!!'') (\<lambda>_.
                      ret Null)
                 else
                   jbind (setJavaFieldString H retVal ''_pwName'' (pw_name pw)) (\<lambda>_.
                   jbind (setJavaFieldString H retVal ''_pwPasswd'' (pw_passwd pw)) (\<lambda>_.
                   jbind (setJavaFieldInt H retVal ''_pwUid'' (pw_uid pw)) (\<lambda>_.
                   jbind (setJavaFieldInt H retVal ''_pwGid'' (pw_gid pw)) (\<lambda>_.
                   jbind (setJavaFieldString H retVal ''_pwGecos'' (pw_gecos pw)) (\<lambda>_.
                   jbind (setJavaFieldString H retVal ''_pwDir'' (pw_dir pw)) (\<lambda>_.
                   jbind (setJavaFieldString H retVal ''_pwShell'' (pw_shell pw)) (\<lambda>_.
                   ret retVal))))))))))))"

definition Java_org_mortbay_setuid_SetUID_getpwuid ::
  "host \<Rightarrow> 'k libc \<Rightarrow> jint \<Rightarrow> (jref, 'k) jni" where
  "Java_org_mortbay_setuid_SetUID_getpwuid H L uid =
     jbind (libc_read (getpwuid L uid)) (\<lambda>pw_ptr.
       case pw_ptr of
         None \<Rightarrow>
           jbind (sprintf_strErr (''User with uid '' @ printf_d uid @ '' is not found!!!'')) (\<lambda>strErr.
           jbind (throwNewJavaSecurityException H strErr) (\<lambda>_.
           ret Null))
       | Some pw \<Rightarrow>
           jbind (FindClass H ''org/mortbay/setuid/Passwd'') (\<lambda>cls.
             if cls = None
             then jbind (throwNewJavaSecurityException H
                           ''Class: org.mortbay.setuid.Passwd is not found!!!'') (\<lambda>_.
                  ret Null)
             else
               jbind (getJavaMethodId H cls ''<init>'' ''()V'') (\<lambda>constructorMethod.
               jbind (NewObject H cls constructorMethod) (\<lambda>retVal.
                 if retVal = Null
                 then jbind (throwNewJavaSecurityException H
                               ''Object Construction error of Class: org.mortbay.setuid.Passwd!!!'') (\<lambda>_.
                      ret Null)
                 else
                   jbind (setJavaFieldString H retVal ''_pwName'' (pw_name pw)) (\<lambda>_.
                   jbind (setJavaFieldString H retVal ''_pwPasswd'' (pw_passwd pw)) (\<lambda>_.
                   jbind (setJavaFieldInt H retVal ''_pwUid'' (pw_uid pw)) (\<lambda>_.
                   jbind (setJavaFieldInt H retVal ''_pwGid'' (pw_gid pw)) (\<lambda>_.
                   jbind (setJavaFieldString H retVal ''_pwGecos'' (pw_gecos pw)) (\<lambda>_.
                   jbind (setJavaFieldString H retVal ''_pwDir'' (pw_dir pw)) (\<lambda>_.
                   jbind (setJavaFieldString H retVal ''_pwShell'' (pw_shell pw)) (\<lambda>_.
                   ret retVal)))))))))))"

subsection \<open>Group lookups\<close>

text \<open>The two loops over the member array. The first counts the cells before the first
  null cell in an \<^verbatim>\<open>int\<close>; the second copies that many members into the Java array.\<close>

function count_members :: "string option list \<Rightarrow> nat \<Rightarrow> nat res" where
  "count_members mem array_size =
     (if array_size < length mem
      then (case mem ! array_size of
              None \<Rightarrow> Val array_size
            | Some m \<Rightarrow>
                if array_size = 2147483647 then Undef ''array_size++: int overflow''
                else count_members mem (array_size + 1))
      else Undef ''gr_mem: read past the end'')"
  by pat_completeness auto
termination
  by (relation "measure (\<lambda>(mem, array_size). length mem - array_size)") auto

declare count_members.simps [simp del]

function copy_members ::
  "string option list \<Rightarrow> nat \<Rightarrow> nat \<Rightarrow> jvalue list \<Rightarrow> jvalue list res" where
  "copy_members mem array_size i strArr =
     (if i < array_size
      then (if i < length mem
            then (case mem ! i of
                    None \<Rightarrow> Undef ''NewStringUTF: null bytes''
                  | Some m \<Rightarrow>
                      (case SetObjectArrayElement strArr i (NewStringUTF m) of
                         Val strArr' \<Rightarrow> copy_members mem array_size (i + 1) strArr'
                       | Undef what \<Rightarrow> Undef what))
            else Undef ''gr_mem: read past the end'')
      else Val strArr)"
  by pat_completeness auto
termination
  by (relation "measure (\<lambda>(mem, array_size, i, strArr). array_size - i)") auto

declare copy_members.simps [simp del]

definition lift_res :: "'a res \<Rightarrow> ('a, 'k) jni" where
  "lift_res r s = (r, s)"

definition Java_org_mortbay_setuid_SetUID_getgrnam ::
  "host \<Rightarrow> 'k libc \<Rightarrow> string \<Rightarrow> (jref, 'k) jni" where
  "Java_org_mortbay_setuid_SetUID_getgrnam H L name =
     jbind (GetStringUTFChars name) (\<lambda>pname.
     jbind (libc_read (getgrnam L pname)) (\<lambda>gr_ptr.
       case gr_ptr of
         None \<Rightarrow>
           jbind (sprintf_strErr (''Group '' @ pname @ '' is not found!!!'')) (\<lambda>strErr.
           jbind (throwNewJavaSecurityException H strErr) (\<lambda>_.
           ret Null))
       | Some gr \<Rightarrow>
           jbind (FindClass H ''org/mortbay/setuid/Group'') (\<lambda>cls.
             if cls = None
             then jbind (throwNewJavaSecurityException H
                           ''Class: org.mortbay.setuid.Group is not found!!!'') (\<lambda>_.
                  ret Null)
             else
               jbind (getJavaMethodId H cls ''<init>'' ''()V'') (\<lambda>constructorMethod.
               jbind (NewObject H cls constructorMethod) (\<lambda>retVal.
                 if retVal = Null
                 then jbind (throwNewJavaSecurityException H
                               ''Object Construction error of Class: org.mortbay.setuid.Group!!!'') (\<lambda>_.
                      ret Null)
                 else
                   jbind (setJavaFieldString H retVal ''_grName'' (gr_name gr)) (\<lambda>_.
                   jbind (setJavaFieldString H retVal ''_grPasswd'' (gr_passwd gr)) (\<lambda>_.
                   jbind (setJavaFieldInt H retVal ''_grGid'' (gr_gid gr)) (\<lambda>_.
                   jbind (case gr_mem gr of
                            None \<Rightarrow> ret ()
                          | Some mem \<Rightarrow>
                              jbind (lift_res (count_members mem 0)) (\<lambda>array_size.
                                if array_size \<noteq> 0
                                then
                                  jbind (FindClass H ''java/lang/String'') (\<lambda>stringClass.
                                  jbind (NewObjectArray array_size stringClass (NewStringUTF [])) (\<lambda>strArr0.
                                  jbind (lift_res (copy_members mem array_size 0 strArr0)) (\<lambda>strArr.
                                  jbind (GetFieldID H cls ''_grMem'' ''[Ljava/lang/String;'') (\<lambda>fieldId.
                                  jbind (if fieldId = None
                                         then throwNewJavaSecurityException H
                                                ''Class: Java Object Field is not found: String[] _grMem!!!''
                                         else ret ()) (\<lambda>_.
                                  SetObjectField retVal fieldId (JArray strArr))))))
                                else ret ())) (\<lambda>_.
                   ret retVal)))))))))"

definition Java_org_mortbay_setuid_SetUID_getgrgid ::
  "host \<Rightarrow> 'k libc \<Rightarrow> jint \<Rightarrow> (jref, 'k) jni" where
  "Java_org_mortbay_setuid_SetUID_getgrgid H L gid =
     jbind (libc_read (getgrgid L gid)) (\<lambda>gr_ptr.
       case gr_ptr of
         None \<Rightarrow>
           jbind (sprintf_strErr (''Group with gid '' @ printf_d gid @ '' is not found!!!'')) (\<lambda>strErr.
           jbind (throwNewJavaSecurityException H strErr) (\<lambda>_.
           ret Null))
       | Some gr \<Rightarrow>
           jbind (FindClass H ''org/mortbay/setuid/Group'') (\<lambda>cls.
             if cls = None
             then jbind (throwNewJavaSecurityException H
                           ''Class: org.mortbay.setuid.Group is not found!!!'') (\<lambda>_.
                  ret Null)
             else
               jbind (getJavaMethodId H cls ''<init>'' ''()V'') (\<lambda>constructorMethod.
               jbind (NewObject H cls constructorMethod) (\<lambda>retVal.
                 if retVal = Null
                 then jbind (throwNewJavaSecurityException H
                               ''Object Construction Error of Class: org.mortbay.setuid.Group!!!'') (\<lambda>_.
                      ret Null)
                 else
                   jbind (setJavaFieldString H retVal ''_grName'' (gr_name gr)) (\<lambda>_.
                   jbind (setJavaFieldString H retVal ''_grPasswd'' (gr_passwd gr)) (\<lambda>_.
                   jbind (setJavaFieldInt H retVal ''_grGid'' (gr_gid gr)) (\<lambda>_.
                   jbind (case gr_mem gr of
                            None \<Rightarrow> ret ()
                          | Some mem \<Rightarrow>
                              jbind (lift_res (count_members mem 0)) (\<lambda>array_size.
                                if array_size \<noteq> 0
                                then
                                  jbind (FindClass H ''java/lang/String'') (\<lambda>stringClass.
                                  jbind (NewObjectArray array_size stringClass (NewStringUTF [])) (\<lambda>strArr0.
                                  jbind (lift_res (copy_members mem array_size 0 strArr0)) (\<lambda>strArr.
                                  jbind (GetFieldID H cls ''_grMem'' ''[Ljava/lang/String;'') (\<lambda>fieldId.
                                  jbind (if fieldId = None
                                         then throwNewJavaSecurityException H
                                                ''Java Object Field is not found: String _grMem!!!''
                                         else ret ()) (\<lambda>_.
                                  SetObjectField retVal fieldId (JArray strArr))))))
                                else ret ())) (\<lambda>_.
                   ret retVal))))))))"

subsection \<open>Resource limits\<close>

text \<open>Storing an \<^verbatim>\<open>rlim_t\<close> through an \<^verbatim>\<open>int\<close> parameter keeps its low 32 bits
  (\<open>ucast\<close>); assigning an \<^verbatim>\<open>int\<close> to an \<^verbatim>\<open>rlim_t\<close> extends its sign (\<open>scast\<close>).\<close>

definition Java_org_mortbay_setuid_SetUID_getrlimitnofiles ::
  "host \<Rightarrow> 'k libc \<Rightarrow> (jref, 'k) jni" where
  "Java_org_mortbay_setuid_SetUID_getrlimitnofiles H L =
     jbind (libc_read (getrlimit_nofile L)) (\<lambda>(success, rlim).
       if sint success < 0
       then jbind (throwNewJavaSecurityException H ''getrlimit failed'') (\<lambda>_.
            ret Null)
       else
         jbind (FindClass H ''org/mortbay/setuid/RLimit'') (\<lambda>cls.
           if cls = None
           then jbind (throwNewJavaSecurityException H
                         ''Class: org.mortbay.setuid.RLimit is not found!!!'') (\<lambda>_.
                ret Null)
           else
             jbind (getJavaMethodId H cls ''<init>'' ''()V'') (\<lambda>constructorMethod.
             jbind (NewObject H cls constructorMethod) (\<lambda>retVal.
               if retVal = Null
               then jbind (throwNewJavaSecurityException H
                             ''Object Construction Error of Class: org.mortbay.setuid.RLimit!!!'') (\<lambda>_.
                    ret Null)
               else
                 jbind (setJavaFieldInt H retVal ''_soft'' (ucast (rlim_cur rlim))) (\<lambda>_.
                 jbind (setJavaFieldInt H retVal ''_hard'' (ucast (rlim_max rlim))) (\<lambda>_.
                 ret retVal))))))"

definition Java_org_mortbay_setuid_SetUID_setrlimitnofiles ::
  "host \<Rightarrow> 'k libc \<Rightarrow> jref \<Rightarrow> (jint, 'k) jni" where
  "Java_org_mortbay_setuid_SetUID_setrlimitnofiles H L jo =
     jbind (FindClass H ''org/mortbay/setuid/RLimit'') (\<lambda>cls.
     jbind (getJavaFieldInt H jo ''_soft'') (\<lambda>soft.
     jbind (getJavaFieldInt H jo ''_hard'') (\<lambda>hard.
     jbind (libc_call (setrlimit_nofile L \<lparr>rlim_cur = scast soft, rlim_max = scast hard\<rparr>)) (\<lambda>success.
     ret success))))"

section \<open>The deployment the file is written for\<close>

text \<open>
  Modelled from the spec: the Java classes \<^verbatim>\<open>Passwd\<close>, \<^verbatim>\<open>Group\<close> and \<^verbatim>\<open>RLimit\<close> of
  package \<^verbatim>\<open>org.mortbay.setuid\<close> are not among the sources. The specification
  describes them as records with a public constructor without arguments and mutable
  fields under the names the native layer refers to; the names and types below are
  those the C file asks for.
\<close>

definition Passwd_fields :: "(string \<times> string) list" where
  "Passwd_fields =
     [(''_pwName'', ''Ljava/lang/String;''), (''_pwPasswd'', ''Ljava/lang/String;''),
      (''_pwUid'', ''I''), (''_pwGid'', ''I''), (''_pwGecos'', ''Ljava/lang/String;''),
      (''_pwDir'', ''Ljava/lang/String;''), (''_pwShell'', ''Ljava/lang/String;'')]"

definition Group_fields :: "(string \<times> string) list" where
  "Group_fields =
     [(''_grName'', ''Ljava/lang/String;''), (''_grPasswd'', ''Ljava/lang/String;''),
      (''_grGid'', ''I''), (''_grMem'', ''[Ljava/lang/String;'')]"

definition RLimit_fields :: "(string \<times> string) list" where
  "RLimit_fields = [(''_soft'', ''I''), (''_hard'', ''I'')]"

text \<open>A class binds a list of fields when it can be constructed without arguments and
  declares each of them; a Java class declares no field name twice.\<close>

definition binds :: "jclass_decl \<Rightarrow> (string \<times> string) list \<Rightarrow> bool" where
  "binds d fs \<longleftrightarrow>
     instantiable d \<and> (''<init>'', ''()V'') \<in> set (cmethods d) \<and>
     set fs \<subseteq> set (cfields d) \<and> distinct (map fst (cfields d))"

text \<open>The members of a group, in the words of the specification: the strings of the
  member array up to its null terminator, in their order.\<close>

definition members :: "string option list \<Rightarrow> string list" where
  "members mem = map the (takeWhile (\<lambda>c. c \<noteq> None) mem)"

text \<open>The records the specification expects for a database entry: a new instance with
  each field bound to the entry's value.\<close>

definition Passwd_record :: "jclass_decl \<Rightarrow> passwd \<Rightarrow> jobject" where
  "Passwd_record d pw =
     put_field ''_pwShell'' (JString (pw_shell pw))
       (put_field ''_pwDir'' (JString (pw_dir pw))
         (put_field ''_pwGecos'' (JString (pw_gecos pw))
           (put_field ''_pwGid'' (JInt (pw_gid pw))
             (put_field ''_pwUid'' (JInt (pw_uid pw))
               (put_field ''_pwPasswd'' (JString (pw_passwd pw))
                 (put_field ''_pwName'' (JString (pw_name pw))
                   (new_instance ''org/mortbay/setuid/Passwd'' d)))))))"

definition Group_record :: "jclass_decl \<Rightarrow> group \<Rightarrow> jobject" where
  "Group_record d gr =
     (let named =
        put_field ''_grGid'' (JInt (gr_gid gr))
          (put_field ''_grPasswd'' (JString (gr_passwd gr))
            (put_field ''_grName'' (JString (gr_name gr))
              (new_instance ''org/mortbay/setuid/Group'' d)))
      in case gr_mem gr of
           None \<Rightarrow> named
         | Some mem \<Rightarrow>
             if members mem = [] then named
             else put_field ''_grMem'' (JArray (map JString (members mem))) named)"

definition RLimit_record :: "jclass_decl \<Rightarrow> jint \<Rightarrow> jint \<Rightarrow> jobject" where
  "RLimit_record d soft hard =
     put_field ''_hard'' (JInt hard)
       (put_field ''_soft'' (JInt soft)
         (new_instance ''org/mortbay/setuid/RLimit'' d))"

text \<open>What libc promises of a group entry: the member pointer is null, or the member
  array has a null cell, and fewer members before it than an \<^verbatim>\<open>int\<close> can count.\<close>

definition terminated :: "group \<Rightarrow> bool" where
  "terminated gr \<longleftrightarrow>
     (case gr_mem gr of
        None \<Rightarrow> True
      | Some mem \<Rightarrow> None \<in> set mem \<and> length (members mem) \<le> 2147483647)"

subsection \<open>A host and a kernel for the examples\<close>

definition Passwd_class :: jclass_decl where
  "Passwd_class =
     \<lparr>cfields = Passwd_fields, cmethods = [(''<init>'', ''()V'')], instantiable = True\<rparr>"

definition Group_class :: jclass_decl where
  "Group_class =
     \<lparr>cfields = Group_fields, cmethods = [(''<init>'', ''()V'')], instantiable = True\<rparr>"

definition RLimit_class :: jclass_decl where
  "RLimit_class =
     \<lparr>cfields = RLimit_fields, cmethods = [(''<init>'', ''()V'')], instantiable = True\<rparr>"

definition library_class :: jclass_decl where
  "library_class = \<lparr>cfields = [], cmethods = [], instantiable = False\<rparr>"

definition jetty_host :: host where
  "jetty_host = map_of
     [(''org/mortbay/setuid/Passwd'', Passwd_class),
      (''org/mortbay/setuid/Group'', Group_class),
      (''org/mortbay/setuid/RLimit'', RLimit_class),
      (''java/lang/String'', library_class),
      (''java/lang/SecurityException'', library_class)]"

text \<open>Two hosts on which a class does not match the native layer: a \<^verbatim>\<open>Passwd\<close> without
  the field \<^verbatim>\<open>_pwName\<close>, and an \<^verbatim>\<open>RLimit\<close> without the field \<^verbatim>\<open>_soft\<close>.\<close>

definition stale_Passwd_host :: host where
  "stale_Passwd_host =
     jetty_host(''org/mortbay/setuid/Passwd'' \<mapsto> Passwd_class\<lparr>cfields := tl Passwd_fields\<rparr>)"


record example_kernel =
  k_uid :: uid_t
  k_gid :: gid_t
  k_umask :: mode_t
  k_nofile :: rlimit

definition example_passwd :: "passwd list" where
  "example_passwd =
     [\<lparr>pw_name = ''root'', pw_passwd = ''x'', pw_uid = 0, pw_gid = 0, pw_gecos = ''root'',
       pw_dir = ''/root'', pw_shell = ''/bin/sh''\<rparr>,
      \<lparr>pw_name = ''jetty'', pw_passwd = ''x'', pw_uid = 1000, pw_gid = 100, pw_gecos = ''Jetty'',
       pw_dir = ''/home/jetty'', pw_shell = ''/bin/false''\<rparr>]"

definition example_group :: "group list" where
  "example_group =
     [\<lparr>gr_name = ''wheel'', gr_passwd = ''x'', gr_gid = 10,
       gr_mem = Some [Some ''root'', Some ''jetty'', None]\<rparr>,
      \<lparr>gr_name = ''nobody'', gr_passwd = ''x'', gr_gid = 99, gr_mem = Some [None]\<rparr>]"

text \<open>A kernel in the manner of POSIX: only the superuser changes identity or raises the
  hard limit, and a soft limit above the hard limit is refused.\<close>

definition example_libc :: "example_kernel libc" where
  "example_libc =
     \<lparr>setuid = (\<lambda>u k. if k_uid k = 0 then (0, k\<lparr>k_uid := u\<rparr>) else (- 1, k)),
      setgid = (\<lambda>g k. if k_uid k = 0 then (0, k\<lparr>k_gid := g\<rparr>) else (- 1, k)),
      umask = (\<lambda>m k. (k_umask k, k\<lparr>k_umask := take_bit 9 m\<rparr>)),
      getpwnam = (\<lambda>n k. find (\<lambda>p. pw_name p = n) example_passwd),
      getpwuid = (\<lambda>u k. find (\<lambda>p. pw_uid p = u) example_passwd),
      getgrnam = (\<lambda>n k. find (\<lambda>g. gr_name g = n) example_group),
      getgrgid = (\<lambda>i k. find (\<lambda>g. gr_gid g = i) example_group),
      getrlimit_nofile = (\<lambda>k. (0, k_nofile k)),
      setrlimit_nofile = (\<lambda>r k.
        if rlim_cur r \<le> rlim_max r \<and> (rlim_max r \<le> rlim_max (k_nofile k) \<or> k_uid k = 0)
        then (0, k\<lparr>k_nofile := r\<rparr>) else (- 1, k))\<rparr>"

definition example_process :: "example_kernel process" where
  "example_process =
     \<lparr>heap = [], thrown = [],
      kernel = \<lparr>k_uid = 1000, k_gid = 100, k_umask = 18,
                k_nofile = \<lparr>rlim_cur = 1024, rlim_max = 4096\<rparr>\<rparr>\<rparr>"

text \<open>A libc whose \<^verbatim>\<open>getrlimit\<close> fails, processes that hold a limit record, and a
  kernel whose limits do not fit an \<^verbatim>\<open>int\<close>: a soft limit of \<open>2^32 + 5\<close> and no hard
  limit.\<close>

definition failing_getrlimit_libc :: "example_kernel libc" where
  "failing_getrlimit_libc = example_libc\<lparr>getrlimit_nofile := (\<lambda>k. (- 1, k_nofile k))\<rparr>"

definition example_RLimit_process :: "jint \<Rightarrow> jint \<Rightarrow> example_kernel process" where
  "example_RLimit_process soft hard =
     example_process\<lparr>heap := [RLimit_record RLimit_class soft hard]\<rparr>"

definition wide_limit_process :: "example_kernel process" where
  "wide_limit_process =
     \<lparr>heap = [RLimit_record RLimit_class 5 (- 1)], thrown = [],
      kernel = \<lparr>k_uid = 1000, k_gid = 100, k_umask = 18,
                k_nofile = \<lparr>rlim_cur = 4294967301, rlim_max = - 1\<rparr>\<rparr>\<rparr>"


subsection \<open>Exceptions and results\<close>



section \<open>Properties\<close>

subsection \<open>Stepping through the host interface\<close>

lemmas jni_defs = ret_def undef_def jbind_def libc_read_def libc_call_def lift_res_def
  FindClass_def GetMethodID_def GetFieldID_def NewObject_def GetObjectClass_def
  SetObjectField_def SetIntField_def GetIntField_def NewStringUTF_def NewObjectArray_def
  ThrowNew_def sprintf_strErr_def GetStringUTFChars_def

lemma throw_ok:
  "H ''java/lang/SecurityException'' = Some e \<Longrightarrow>
   throwNewJavaSecurityException H msg s =
     (Val (), s\<lparr>thrown := thrown s @ [(''java/lang/SecurityException'', msg)]\<rparr>)"
  by (simp add: throwNewJavaSecurityException_def throwNewJavaException_def jni_defs)


lemma obj_class_put_field [simp]: "obj_class (put_field n v ob) = obj_class ob"
  by (simp add: put_field_def)

lemma get_field_put_field [simp]:
  "get_field (put_field n v ob) m = (if m = n then Some v else get_field ob m)"
  by (simp add: put_field_def get_field_def update_conv)

lemma get_field_new_instance:
  assumes "distinct (map fst (cfields d))" "(n, sg) \<in> set (cfields d)"
  shows "get_field (new_instance c d) n = Some (default_value sg)"
proof -
  have "map_of (cfields d) n = Some sg"
    using assms by (rule map_of_is_SomeI)
  then show ?thesis
    by (simp add: get_field_def new_instance_def map_of_map)
qed

lemma setJavaFieldString_ok:
  "r < length (heap s) \<Longrightarrow> H (obj_class (heap s ! r)) = Some d \<Longrightarrow>
   (name, ''Ljava/lang/String;'') \<in> set (cfields d) \<Longrightarrow>
   setJavaFieldString H (Ref r) name v s =
     (Val (), s\<lparr>heap := (heap s)[r := put_field name (JString v) (heap s ! r)]\<rparr>)"
  by (simp add: setJavaFieldString_def jni_defs)

lemma setJavaFieldString_missing:
  assumes "r < length (heap s)" "H (obj_class (heap s ! r)) = Some d"
    and "(name, ''Ljava/lang/String;'') \<notin> set (cfields d)"
    and "H ''java/lang/SecurityException'' = Some e" "length name \<le> 200"
  shows "setJavaFieldString H (Ref r) name v s =
     (Undef ''SetObjectField: null fieldID'',
      s\<lparr>thrown := thrown s @ [(''java/lang/SecurityException'',
          ''Java Object Field is not found: String '' @ name @ '' !!!'')]\<rparr>)"
  using assms
  by (simp add: setJavaFieldString_def jbind_def GetObjectClass_def GetFieldID_def ret_def
      sprintf_strErr_def throw_ok [where e = e] SetObjectField_def undef_def)

lemma setJavaFieldInt_ok:
  "r < length (heap s) \<Longrightarrow> H (obj_class (heap s ! r)) = Some d \<Longrightarrow>
   (name, ''I'') \<in> set (cfields d) \<Longrightarrow>
   setJavaFieldInt H (Ref r) name v s =
     (Val (), s\<lparr>heap := (heap s)[r := put_field name (JInt v) (heap s ! r)]\<rparr>)"
  by (simp add: setJavaFieldInt_def jni_defs)

lemma getJavaFieldInt_ok:
  "r < length (heap s) \<Longrightarrow> H (obj_class (heap s ! r)) = Some d \<Longrightarrow>
   (name, ''I'') \<in> set (cfields d) \<Longrightarrow> get_field (heap s ! r) name = Some (JInt v) \<Longrightarrow>
   getJavaFieldInt H (Ref r) name s = (Val v, s)"
  by (simp add: getJavaFieldInt_def jni_defs)


lemma getJavaMethodId_ok:
  "H c = Some d \<Longrightarrow> (name, sig) \<in> set (cmethods d) \<Longrightarrow>
   getJavaMethodId H (Some c) name sig s = (Val (Some (name, sig)), s)"
  by (simp add: getJavaMethodId_def jni_defs)


subsection \<open>The length of a formatted number\<close>

lemma dec_nat_length: "0 < k \<Longrightarrow> n < 10 ^ k \<Longrightarrow> length (dec_nat n) \<le> k"
proof (induction k arbitrary: n)
  case 0
  then show ?case by simp
next
  case (Suc k)
  show ?case
  proof (cases "n < 10")
    case True
    then show ?thesis by (simp add: dec_nat.simps [of n])
  next
    case False
    then have "0 < k" using Suc.prems by (cases k) auto
    moreover have "n div 10 < 10 ^ k" using Suc.prems by (simp add: less_mult_imp_div_less)
    ultimately have "length (dec_nat (n div 10)) \<le> k" by (rule Suc.IH)
    with False show ?thesis by (simp add: dec_nat.simps [of n])
  qed
qed

lemma printf_d_length: "length (printf_d x) \<le> 11"
proof -
  have "- (2 ^ 31) \<le> sint x" "sint x < 2 ^ 31"
    using sint_ge [of x] sint_lt [of x] by simp_all
  then have "nat (- sint x) < 10 ^ 10" "nat (sint x) < 10 ^ 10" by simp_all
  then have "length (dec_nat (nat (- sint x))) \<le> 10" "length (dec_nat (nat (sint x))) \<le> 10"
    by (simp_all add: dec_nat_length)
  then show ?thesis by (simp add: printf_d_def)
qed

subsection \<open>The two loops over the member array\<close>

lemma count_members_scan:
  "length ms \<le> 2147483647 \<Longrightarrow> n \<le> length ms \<Longrightarrow>
   count_members (map Some ms @ None # rest) n = Val (length ms)"
proof (induction "length ms - n" arbitrary: n)
  case 0
  then have "n = length ms" by simp
  then show ?case by (simp add: count_members.simps [of _ "length ms"] nth_append)
next
  case (Suc k)
  then have lt: "n < length ms"
    and ih: "count_members (map Some ms @ None # rest) (n + 1) = Val (length ms)"
    by auto
  from lt Suc.prems have "n \<noteq> 2147483647" by simp
  with lt ih show ?case
    by (simp add: count_members.simps [of _ n] nth_append)
qed

lemma copy_members_copy:
  "i \<le> length ms \<Longrightarrow> length arr = length ms \<Longrightarrow>
   copy_members (map Some ms @ None # rest) (length ms) i arr
     = Val (take i arr @ map JString (drop i ms))"
proof (induction "length ms - i" arbitrary: i arr)
  case 0
  then show ?case by (simp add: copy_members.simps [of _ _ i])
next
  case (Suc k)
  then have lt: "i < length ms" by simp
  have ih: "copy_members (map Some ms @ None # rest) (length ms) (i + 1) (arr[i := JString (ms ! i)])
      = Val (take (i + 1) (arr[i := JString (ms ! i)]) @ map JString (drop (i + 1) ms))"
    using Suc by (intro Suc.hyps(1)) auto
  have t: "take (i + 1) (arr[i := JString (ms ! i)]) = take i arr @ [JString (ms ! i)]"
    using lt Suc.prems by (simp add: take_Suc_conv_app_nth)
  have d: "drop i ms = ms ! i # drop (i + 1) ms"
    using lt by (simp add: Cons_nth_drop_Suc)
  show ?case
    using lt Suc.prems ih t d
    by (simp add: copy_members.simps [of _ _ i] nth_append NewStringUTF_def
        SetObjectArrayElement_def)
qed

lemma terminated_split:
  "None \<in> set mem \<Longrightarrow> \<exists>rest. mem = map Some (members mem) @ None # rest"
proof (induction mem)
  case Nil
  then show ?case by simp
next
  case (Cons c mem)
  show ?case
  proof (cases c)
    case None
    then show ?thesis by (simp add: members_def)
  next
    case (Some m)
    with Cons obtain rest where "mem = map Some (members mem) @ None # rest" by auto
    with Some show ?thesis by (auto simp: members_def)
  qed
qed

lemma member_loops:
  assumes "gr_mem gr = Some mem" "terminated gr"
  shows "count_members mem 0 = Val (length (members mem))"
    and "copy_members mem (length (members mem)) 0 (replicate (length (members mem)) (JString []))
           = Val (map JString (members mem))"
proof -
  from assms obtain rest where m: "mem = map Some (members mem) @ None # rest"
    and le: "length (members mem) \<le> 2147483647"
    using terminated_split by (auto simp: terminated_def)
  define ms where "ms = members mem"
  have "count_members (map Some ms @ None # rest) 0 = Val (length ms)"
    using count_members_scan [of ms 0 rest] le by (simp add: ms_def)
  then show "count_members mem 0 = Val (length (members mem))"
    using m by (simp add: ms_def)
  have "copy_members (map Some ms @ None # rest) (length ms) 0 (replicate (length ms) (JString []))
      = Val (map JString ms)"
    using copy_members_copy [of 0 ms "replicate (length ms) (JString [])" rest] by simp
  then show "copy_members mem (length (members mem)) 0 (replicate (length (members mem)) (JString []))
           = Val (map JString (members mem))"
    using m by (simp add: ms_def)
qed

subsection \<open>Conversions between the limit type and int\<close>

lemma sint_of_rlim:
  "sint (ucast (v :: 64 word) :: 32 word) = (uint v + 2 ^ 31) mod 2 ^ 32 - 2 ^ 31"
proof -
  have "sint (ucast v :: 32 word) = signed_take_bit 31 (uint v)"
    by (simp add: signed_ucast_eq)
  also have "\<dots> = take_bit 32 (uint v + 2 ^ 31) - 2 ^ 31"
    by (simp add: signed_take_bit_eq_take_bit_shift)
  finally show ?thesis by (simp add: take_bit_eq_mod)
qed

lemma sint_of_small_rlim:
  assumes "(v :: 64 word) \<le> 2147483647"
  shows "sint (ucast v :: 32 word) = uint v"
proof -
  have "uint v \<le> 2147483647" using assms by (simp add: word_le_def)
  moreover have "0 \<le> uint v" by simp
  ultimately have "(uint v + 2 ^ 31) mod 2 ^ 32 = uint v + 2 ^ 31"
    by (intro mod_pos_pos_trivial) simp_all
  then show ?thesis by (simp add: sint_of_rlim)
qed

lemma rlim_of_int:
  "uint (scast (a :: 32 word) :: 64 word) = sint a mod 2 ^ 64"
proof -
  have "uint (word_of_int (sint a) :: 64 word) = sint a mod 2 ^ 64"
    by (simp only: uint_word_of_int len_bit0 len_num1 mult_1_right) simp
  then show ?thesis by (simp only: scast_eq)
qed

lemma int_of_rlim_of_int:
  "(ucast (scast (x :: 32 word) :: 64 word) :: 32 word) = x"
  by (rule bit_word_eqI) (auto simp: bit_simps)

lemma unlimited:
  "uint (- 1 :: 64 word) = 18446744073709551615" "(ucast (- 1 :: 64 word) :: 32 word) = - 1"
proof -
  show "uint (- 1 :: 64 word) = 18446744073709551615"
    by (simp add: unsigned_minus_1_eq_mask mask_eq_exp_minus_1)
  show "(ucast (- 1 :: 64 word) :: 32 word) = - 1"
    by (rule bit_word_eqI) (auto simp: bit_simps)
qed

subsection \<open>An operation that succeeds on a matching host\<close>

lemma binds_Group:
  assumes "binds d Group_fields"
  shows "(''_grName'', ''Ljava/lang/String;'') \<in> set (cfields d)"
    "(''_grPasswd'', ''Ljava/lang/String;'') \<in> set (cfields d)"
    "(''_grGid'', ''I'') \<in> set (cfields d)"
    "(''_grMem'', ''[Ljava/lang/String;'') \<in> set (cfields d)"
    "(''<init>'', ''()V'') \<in> set (cmethods d)" "instantiable d"
  using assms by (auto simp: binds_def Group_fields_def)

lemma binds_Passwd:
  assumes "binds d Passwd_fields"
  shows "(''_pwName'', ''Ljava/lang/String;'') \<in> set (cfields d)"
    "(''_pwPasswd'', ''Ljava/lang/String;'') \<in> set (cfields d)"
    "(''_pwUid'', ''I'') \<in> set (cfields d)"
    "(''_pwGid'', ''I'') \<in> set (cfields d)"
    "(''_pwGecos'', ''Ljava/lang/String;'') \<in> set (cfields d)"
    "(''_pwDir'', ''Ljava/lang/String;'') \<in> set (cfields d)"
    "(''_pwShell'', ''Ljava/lang/String;'') \<in> set (cfields d)"
    "(''<init>'', ''()V'') \<in> set (cmethods d)" "instantiable d"
  using assms by (auto simp: binds_def Passwd_fields_def)

lemma binds_RLimit:
  assumes "binds d RLimit_fields"
  shows "(''_soft'', ''I'') \<in> set (cfields d)" "(''_hard'', ''I'') \<in> set (cfields d)"
    "(''<init>'', ''()V'') \<in> set (cmethods d)" "instantiable d"
  using assms by (auto simp: binds_def RLimit_fields_def)

lemmas populate_defs = jbind_def ret_def libc_read_def GetStringUTFChars_def FindClass_def
  lift_res_def NewObject_def nth_append new_instance_def NewObjectArray_def NewStringUTF_def
  GetFieldID_def SetObjectField_def

lemma getgrnam_found:
  assumes H: "H ''org/mortbay/setuid/Group'' = Some d" "binds d Group_fields"
      "H ''java/lang/String'' = Some d'"
    and gr: "getgrnam L name (kernel s) = Some gr" "terminated gr"
  shows "Java_org_mortbay_setuid_SetUID_getgrnam H L name s =
     (Val (Ref (length (heap s))), s\<lparr>heap := heap s @ [Group_record d gr]\<rparr>)"
proof (cases "gr_mem gr")
  case None
  show ?thesis
    unfolding Java_org_mortbay_setuid_SetUID_getgrnam_def
    using H binds_Group [OF H(2)] gr None
    by (simp add: populate_defs getJavaMethodId_ok [where d = d] Group_record_def
        setJavaFieldString_ok [where H = H and d = d] setJavaFieldInt_ok [where H = H and d = d])
next
  case (Some mem)
  show ?thesis
    unfolding Java_org_mortbay_setuid_SetUID_getgrnam_def
    using H binds_Group [OF H(2)] gr Some member_loops [OF Some gr(2)]
    by (simp add: populate_defs getJavaMethodId_ok [where d = d] Group_record_def
        setJavaFieldString_ok [where H = H and d = d] setJavaFieldInt_ok [where H = H and d = d])
qed

lemma getgrgid_found:
  assumes H: "H ''org/mortbay/setuid/Group'' = Some d" "binds d Group_fields"
      "H ''java/lang/String'' = Some d'"
    and gr: "getgrgid L gid (kernel s) = Some gr" "terminated gr"
  shows "Java_org_mortbay_setuid_SetUID_getgrgid H L gid s =
     (Val (Ref (length (heap s))), s\<lparr>heap := heap s @ [Group_record d gr]\<rparr>)"
proof (cases "gr_mem gr")
  case None
  show ?thesis
    unfolding Java_org_mortbay_setuid_SetUID_getgrgid_def
    using H binds_Group [OF H(2)] gr None
    by (simp add: populate_defs getJavaMethodId_ok [where d = d] Group_record_def
        setJavaFieldString_ok [where H = H and d = d] setJavaFieldInt_ok [where H = H and d = d])
next
  case (Some mem)
  show ?thesis
    unfolding Java_org_mortbay_setuid_SetUID_getgrgid_def
    using H binds_Group [OF H(2)] gr Some member_loops [OF Some gr(2)]
    by (simp add: populate_defs getJavaMethodId_ok [where d = d] Group_record_def
        setJavaFieldString_ok [where H = H and d = d] setJavaFieldInt_ok [where H = H and d = d])
qed


lemma getpwuid_found:
  assumes H: "H ''org/mortbay/setuid/Passwd'' = Some d" "binds d Passwd_fields"
    and pw: "getpwuid L uid (kernel s) = Some pw"
  shows "Java_org_mortbay_setuid_SetUID_getpwuid H L uid s =
     (Val (Ref (length (heap s))), s\<lparr>heap := heap s @ [Passwd_record d pw]\<rparr>)"
  unfolding Java_org_mortbay_setuid_SetUID_getpwuid_def
  using H binds_Passwd [OF H(2)] pw
  by (simp add: populate_defs getJavaMethodId_ok [where d = d] Passwd_record_def
      setJavaFieldString_ok [where H = H and d = d] setJavaFieldInt_ok [where H = H and d = d])

lemma RLimit_record_fields:
  "get_field (RLimit_record d soft hard) ''_soft'' = Some (JInt soft)"
  "get_field (RLimit_record d soft hard) ''_hard'' = Some (JInt hard)"
  "obj_class (RLimit_record d soft hard) = ''org/mortbay/setuid/RLimit''"
  by (simp_all add: RLimit_record_def new_instance_def)

lemma getrlimitnofiles_ok:
  assumes H: "H ''org/mortbay/setuid/RLimit'' = Some d" "binds d RLimit_fields"
    and k: "getrlimit_nofile L (kernel s) = (success, rlim)" "\<not> sint success < 0"
  shows "Java_org_mortbay_setuid_SetUID_getrlimitnofiles H L s =
     (Val (Ref (length (heap s))),
      s\<lparr>heap := heap s @ [RLimit_record d (ucast (rlim_cur rlim)) (ucast (rlim_max rlim))]\<rparr>)"
  unfolding Java_org_mortbay_setuid_SetUID_getrlimitnofiles_def
  using H binds_RLimit [OF H(2)] k
  by (simp add: populate_defs getJavaMethodId_ok [where d = d] RLimit_record_def
      setJavaFieldInt_ok [where H = H and d = d])

lemma getrlimitnofiles_failed:
  assumes H: "H ''java/lang/SecurityException'' = Some e"
    and k: "getrlimit_nofile L (kernel s) = (success, rlim)" "sint success < 0"
  shows "Java_org_mortbay_setuid_SetUID_getrlimitnofiles H L s =
     (Val Null, s\<lparr>thrown := thrown s @ [(''java/lang/SecurityException'', ''getrlimit failed'')]\<rparr>)"
  unfolding Java_org_mortbay_setuid_SetUID_getrlimitnofiles_def
  using H k by (simp add: jbind_def ret_def libc_read_def throw_ok [where e = e])

lemma getrlimitnofiles_failed_null:
  assumes "getrlimit_nofile L (kernel s) = (success, rlim)" "sint success < 0"
  shows "fst (Java_org_mortbay_setuid_SetUID_getrlimitnofiles H L s) = Val Null"
  using assms
  by (simp add: Java_org_mortbay_setuid_SetUID_getrlimitnofiles_def jbind_def libc_read_def
      ret_def throwNewJavaSecurityException_def throwNewJavaException_def FindClass_def
      ThrowNew_def)

lemma setrlimitnofiles_ok:
  assumes "r < length (heap s)" "H (obj_class (heap s ! r)) = Some d"
    "(''_soft'', ''I'') \<in> set (cfields d)" "(''_hard'', ''I'') \<in> set (cfields d)"
    "get_field (heap s ! r) ''_soft'' = Some (JInt soft)"
    "get_field (heap s ! r) ''_hard'' = Some (JInt hard)"
  shows "Java_org_mortbay_setuid_SetUID_setrlimitnofiles H L (Ref r) s =
     (Val (fst (setrlimit_nofile L \<lparr>rlim_cur = scast soft, rlim_max = scast hard\<rparr> (kernel s))),
      s\<lparr>kernel := snd (setrlimit_nofile L \<lparr>rlim_cur = scast soft, rlim_max = scast hard\<rparr> (kernel s))\<rparr>)"
  unfolding Java_org_mortbay_setuid_SetUID_setrlimitnofiles_def
  using assms
  by (simp add: jbind_def ret_def FindClass_def libc_call_def
      getJavaFieldInt_ok [where H = H and d = d] split: prod.split)

subsection \<open>A lookup that finds no entry\<close>

lemma getpwuid_not_found:
  assumes "getpwuid L uid (kernel s) = None" "H ''java/lang/SecurityException'' = Some e"
  shows "Java_org_mortbay_setuid_SetUID_getpwuid H L uid s =
     (Val Null, s\<lparr>thrown := thrown s @ [(''java/lang/SecurityException'',
        ''User with uid '' @ printf_d uid @ '' is not found!!!'')]\<rparr>)"
  using assms printf_d_length [of uid]
  by (simp add: Java_org_mortbay_setuid_SetUID_getpwuid_def jbind_def libc_read_def ret_def
      sprintf_strErr_def throw_ok [where e = e])

lemma getgrgid_not_found:
  assumes "getgrgid L gid (kernel s) = None" "H ''java/lang/SecurityException'' = Some e"
  shows "Java_org_mortbay_setuid_SetUID_getgrgid H L gid s =
     (Val Null, s\<lparr>thrown := thrown s @ [(''java/lang/SecurityException'',
        ''Group with gid '' @ printf_d gid @ '' is not found!!!'')]\<rparr>)"
  using assms printf_d_length [of gid]
  by (simp add: Java_org_mortbay_setuid_SetUID_getgrgid_def jbind_def libc_read_def ret_def
      sprintf_strErr_def throw_ok [where e = e])

lemma getpwnam_not_found:
  assumes "getpwnam L name (kernel s) = None" "H ''java/lang/SecurityException'' = Some e"
  shows "Java_org_mortbay_setuid_SetUID_getpwnam H L name s =
     (if length name \<le> 233
      then (Val Null, s\<lparr>thrown := thrown s @ [(''java/lang/SecurityException'',
              ''User '' @ name @ '' is not found!!!'')]\<rparr>)
      else (Undef ''sprintf: strErr overflow'', s))"
  using assms
  by (auto simp: Java_org_mortbay_setuid_SetUID_getpwnam_def jbind_def libc_read_def ret_def
      GetStringUTFChars_def sprintf_strErr_def throw_ok [where e = e] undef_def)

lemma getgrnam_not_found:
  assumes "getgrnam L name (kernel s) = None" "H ''java/lang/SecurityException'' = Some e"
  shows "Java_org_mortbay_setuid_SetUID_getgrnam H L name s =
     (if length name \<le> 232
      then (Val Null, s\<lparr>thrown := thrown s @ [(''java/lang/SecurityException'',
              ''Group '' @ name @ '' is not found!!!'')]\<rparr>)
      else (Undef ''sprintf: strErr overflow'', s))"
  using assms
  by (auto simp: Java_org_mortbay_setuid_SetUID_getgrnam_def jbind_def libc_read_def ret_def
      GetStringUTFChars_def sprintf_strErr_def throw_ok [where e = e] undef_def)

subsection \<open>A returned record comes without an exception\<close>




















subsection \<open>A reflective step that fails\<close>

text \<open>The three steps before the fields are bound, for the lookup of a user by name: a
  class that is not found and a construction that fails end the call with null; a
  constructor that is not found does not.\<close>

lemma getpwnam_class_not_found:
  assumes "getpwnam L name (kernel s) = Some pw" "H ''org/mortbay/setuid/Passwd'' = None"
    and "H ''java/lang/SecurityException'' = Some e"
  shows "Java_org_mortbay_setuid_SetUID_getpwnam H L name s =
     (Val Null, s\<lparr>thrown := thrown s @ [(''java/lang/SecurityException'',
        ''Class: org.mortbay.setuid.Passwd is not found!!!'')]\<rparr>)"
  using assms
  by (simp add: Java_org_mortbay_setuid_SetUID_getpwnam_def jbind_def libc_read_def ret_def
      GetStringUTFChars_def FindClass_def throw_ok [where e = e])

lemma getpwnam_construction_failed:
  assumes "getpwnam L name (kernel s) = Some pw" "H ''org/mortbay/setuid/Passwd'' = Some d"
    and "(''<init>'', ''()V'') \<in> set (cmethods d)" "\<not> instantiable d"
    and "H ''java/lang/SecurityException'' = Some e"
  shows "Java_org_mortbay_setuid_SetUID_getpwnam H L name s =
     (Val Null, s\<lparr>thrown := thrown s @ [(''java/lang/SecurityException'',
        ''Object Construction error of Class: org.mortbay.setuid.Passwd!!!'')]\<rparr>)"
  using assms
  by (simp add: Java_org_mortbay_setuid_SetUID_getpwnam_def jbind_def libc_read_def ret_def
      GetStringUTFChars_def FindClass_def getJavaMethodId_ok [where d = d] NewObject_def
      throw_ok [where e = e])

lemma getpwnam_constructor_not_found:
  assumes "getpwnam L name (kernel s) = Some pw" "H ''org/mortbay/setuid/Passwd'' = Some d"
    and "(''<init>'', ''()V'') \<notin> set (cmethods d)"
    and "H ''java/lang/SecurityException'' = Some e"
  shows "Java_org_mortbay_setuid_SetUID_getpwnam H L name s =
     (Undef ''NewObject: null methodID'',
      s\<lparr>thrown := thrown s @ [(''java/lang/SecurityException'',
        ''Java Method is not found: <init> !!!'')]\<rparr>)"
  using assms
  by (simp add: Java_org_mortbay_setuid_SetUID_getpwnam_def jbind_def libc_read_def ret_def
      GetStringUTFChars_def FindClass_def getJavaMethodId_def GetMethodID_def sprintf_strErr_def
      NewObject_def undef_def throw_ok [where e = e])

subsection \<open>The example host\<close>

lemma example_facts:
  "jetty_host ''org/mortbay/setuid/Passwd'' = Some Passwd_class"
  "jetty_host ''org/mortbay/setuid/Group'' = Some Group_class"
  "jetty_host ''org/mortbay/setuid/RLimit'' = Some RLimit_class"
  "jetty_host ''java/lang/String'' = Some library_class"
  "jetty_host ''java/lang/SecurityException'' = Some library_class"
  "binds Passwd_class Passwd_fields"
  "binds Group_class Group_fields"
  "binds RLimit_class RLimit_fields"
  by (simp_all add: jetty_host_def binds_def Passwd_class_def Group_class_def RLimit_class_def
      Passwd_fields_def Group_fields_def RLimit_fields_def)

section \<open>The claims\<close>

subsection \<open>Identity lookups\<close>

text \<open>
  Claim C1. A lookup in which a reflective step fails should throw the security exception
  that names the missing element and return null at once, so that no record with only
  some of its fields bound comes back. The file does this for a class that is not found
  and for a construction that fails, and misses it for a field: user \<^verbatim>\<open>jetty\<close> exists
  and the host's \<^verbatim>\<open>Passwd\<close> class has no field \<^verbatim>\<open>_pwName\<close>; the lookup constructs the
  object, throws the exception that names the field, and then, instead of returning
  null, goes on to \<^verbatim>\<open>SetObjectField\<close> with the null field handle.
\<close>

theorem getpwnam_missing_field_goes_on:
  "Java_org_mortbay_setuid_SetUID_getpwnam stale_Passwd_host example_libc ''jetty'' example_process =
     (Undef ''SetObjectField: null fieldID'',
      example_process
        \<lparr>heap := [new_instance ''org/mortbay/setuid/Passwd'' (Passwd_class\<lparr>cfields := tl Passwd_fields\<rparr>)],
         thrown := [(''java/lang/SecurityException'',
                     ''Java Object Field is not found: String _pwName !!!'')]\<rparr>)"
proof -
  let ?d = "Passwd_class\<lparr>cfields := tl Passwd_fields\<rparr>"
  let ?s1 = "example_process\<lparr>heap := [new_instance ''org/mortbay/setuid/Passwd'' ?d]\<rparr>"
  have h: "0 < length (heap ?s1)" "stale_Passwd_host (obj_class (heap ?s1 ! 0)) = Some ?d"
      "(''_pwName'', ''Ljava/lang/String;'') \<notin> set (cfields ?d)"
      "stale_Passwd_host ''java/lang/SecurityException'' = Some library_class"
      "length ''_pwName'' \<le> 200"
    by (simp_all add: stale_Passwd_host_def new_instance_def jetty_host_def Passwd_fields_def)
  have c: "stale_Passwd_host ''org/mortbay/setuid/Passwd'' = Some ?d"
      "(''<init>'', ''()V'') \<in> set (cmethods ?d)" "instantiable ?d"
    by (simp_all add: stale_Passwd_host_def Passwd_class_def)
  have e: "getpwnam example_libc ''jetty'' (kernel example_process) =
      Some \<lparr>pw_name = ''jetty'', pw_passwd = ''x'', pw_uid = 1000, pw_gid = 100,
            pw_gecos = ''Jetty'', pw_dir = ''/home/jetty'', pw_shell = ''/bin/false''\<rparr>"
    by (simp add: example_libc_def example_passwd_def)
  have hp: "heap example_process = []" "thrown example_process = []"
    by (simp_all add: example_process_def)
  show ?thesis
    unfolding Java_org_mortbay_setuid_SetUID_getpwnam_def
    using e c hp
      setJavaFieldString_missing [where H = stale_Passwd_host and s = ?s1 and r = 0
        and v = "''jetty''", OF h]
    by (simp add: jbind_def ret_def libc_read_def GetStringUTFChars_def FindClass_def
        getJavaMethodId_ok [where d = ?d] NewObject_def)
qed

text \<open>
  Claim C2. A lookup that finds no entry should throw a security exception whose message
  holds the key that was asked for, and return null. The file does this for every id and
  for every name that fits the message buffer, as the four lemmas on lookups without an
  entry show, and misses it for a long name: a name of 234 bytes that the database does
  not know makes \<^verbatim>\<open>sprintf\<close> write past the end of \<^verbatim>\<open>strErr\<close>, before anything is
  thrown or returned.
\<close>

theorem getpwnam_long_name_overflows:
  "Java_org_mortbay_setuid_SetUID_getpwnam jetty_host example_libc (replicate 234 CHR ''a'')
     example_process = (Undef ''sprintf: strErr overflow'', example_process)"
proof -
  have "find (\<lambda>p. pw_name p = n) example_passwd = None" if "length n = 234" for n
    using that by (auto simp: find_None_iff example_passwd_def)
  then have "getpwnam example_libc (replicate 234 CHR ''a'') (kernel example_process) = None"
    by (simp add: example_libc_def)
  then show ?thesis
    using getpwnam_not_found [where H = jetty_host and L = example_libc and s = example_process
        and name = "replicate 234 CHR ''a''" and e = library_class]
    by (simp add: example_facts)
qed

text \<open>
  Claim C3. On a host whose \<^verbatim>\<open>Group\<close> class binds the four fields, a group lookup by name
  or by id that finds an entry with a terminated member array returns a new object. When
  the entry has \<open>N > 0\<close> members before the terminator, the field \<^verbatim>\<open>_grMem\<close> of the
  object is an array of exactly these \<open>N\<close> strings in their order; when it has none, or
  when the member pointer is null, the field keeps the null value it was created with.
\<close>

theorem group_member_list:
  assumes "H ''org/mortbay/setuid/Group'' = Some d" "binds d Group_fields"
    and "H ''java/lang/String'' = Some d'"
    and "getgrnam L name (kernel s) = Some gr" "getgrgid L gid (kernel s) = Some gr"
    and "terminated gr"
  shows "\<exists>ob.
     Java_org_mortbay_setuid_SetUID_getgrnam H L name s =
       (Val (Ref (length (heap s))), s\<lparr>heap := heap s @ [ob]\<rparr>) \<and>
     Java_org_mortbay_setuid_SetUID_getgrgid H L gid s =
       (Val (Ref (length (heap s))), s\<lparr>heap := heap s @ [ob]\<rparr>) \<and>
     get_field ob ''_grMem'' =
       (case gr_mem gr of
          None \<Rightarrow> Some JNull
        | Some mem \<Rightarrow>
            if length (members mem) = 0 then Some JNull
            else Some (JArray (map JString (members mem))))"
proof -
  have "(''_grMem'', ''[Ljava/lang/String;'') \<in> set (cfields d)" "distinct (map fst (cfields d))"
    using assms(2) by (simp_all add: binds_def Group_fields_def)
  then have "get_field (new_instance ''org/mortbay/setuid/Group'' d) ''_grMem'' = Some JNull"
    using get_field_new_instance [of d "''_grMem''" "''[Ljava/lang/String;''"]
    by (simp add: default_value_def)
  then have "get_field (Group_record d gr) ''_grMem'' =
       (case gr_mem gr of
          None \<Rightarrow> Some JNull
        | Some mem \<Rightarrow>
            if length (members mem) = 0 then Some JNull
            else Some (JArray (map JString (members mem))))"
    by (simp add: Group_record_def split: option.split)
  then show ?thesis
    using getgrnam_found [OF assms(1,2,3,4,6)] getgrgid_found [OF assms(1,2,3,5,6)] by blast
qed

theorem group_member_list_witness:
  "(\<exists>ob.
     Java_org_mortbay_setuid_SetUID_getgrnam jetty_host example_libc ''wheel'' example_process =
       (Val (Ref 0), example_process\<lparr>heap := [ob]\<rparr>) \<and>
     Java_org_mortbay_setuid_SetUID_getgrgid jetty_host example_libc 10 example_process =
       (Val (Ref 0), example_process\<lparr>heap := [ob]\<rparr>) \<and>
     get_field ob ''_grMem'' = Some (JArray [JString ''root'', JString ''jetty'']))
   \<and> (\<exists>ob.
     Java_org_mortbay_setuid_SetUID_getgrnam jetty_host example_libc ''nobody'' example_process =
       (Val (Ref 0), example_process\<lparr>heap := [ob]\<rparr>) \<and>
     Java_org_mortbay_setuid_SetUID_getgrgid jetty_host example_libc 99 example_process =
       (Val (Ref 0), example_process\<lparr>heap := [ob]\<rparr>) \<and>
     get_field ob ''_grMem'' = Some JNull)"
proof -
  let ?wheel = "\<lparr>gr_name = ''wheel'', gr_passwd = ''x'', gr_gid = 10,
       gr_mem = Some [Some ''root'', Some ''jetty'', None]\<rparr>"
  let ?nobody = "\<lparr>gr_name = ''nobody'', gr_passwd = ''x'', gr_gid = 99, gr_mem = Some [None]\<rparr>"
  have w: "getgrnam example_libc ''wheel'' (kernel example_process) = Some ?wheel"
      "getgrgid example_libc 10 (kernel example_process) = Some ?wheel" "terminated ?wheel"
    by (simp_all add: example_libc_def example_group_def terminated_def members_def)
  have n: "getgrnam example_libc ''nobody'' (kernel example_process) = Some ?nobody"
      "getgrgid example_libc 99 (kernel example_process) = Some ?nobody" "terminated ?nobody"
    by (simp_all add: example_libc_def example_group_def terminated_def members_def)
  show ?thesis
    using group_member_list [OF example_facts(2,7,4) w] group_member_list [OF example_facts(2,7,4) n]
    by (simp add: example_process_def members_def)
qed

subsection \<open>Privilege changes and failure channels\<close>

text \<open>
  Claim C4. For every argument and every state, each of \<^verbatim>\<open>setuid\<close>, \<^verbatim>\<open>setgid\<close> and
  \<^verbatim>\<open>setumask\<close> makes its one system call on the argument as given and returns the
  call's result as it is. The argument is not checked, the heap is untouched and nothing
  is thrown: the state after the call differs from the state before only in the kernel,
  which is the one the system call left.
\<close>

theorem privilege_change_pass_through:
  "Java_org_mortbay_setuid_SetUID_setuid L uid s =
     (Val (fst (setuid L uid (kernel s))), s\<lparr>kernel := snd (setuid L uid (kernel s))\<rparr>)
   \<and> Java_org_mortbay_setuid_SetUID_setgid L gid s =
     (Val (fst (setgid L gid (kernel s))), s\<lparr>kernel := snd (setgid L gid (kernel s))\<rparr>)
   \<and> Java_org_mortbay_setuid_SetUID_setumask L msk s =
     (Val (fst (umask L msk (kernel s))), s\<lparr>kernel := snd (umask L msk (kernel s))\<rparr>)"
  by (simp add: Java_org_mortbay_setuid_SetUID_setuid_def Java_org_mortbay_setuid_SetUID_setgid_def
      Java_org_mortbay_setuid_SetUID_setumask_def libc_call_def split: prod.split)




subsection \<open>Resource limits\<close>

text \<open>
  Claim C6. For every record whose class declares the \<^verbatim>\<open>int\<close> fields \<^verbatim>\<open>_soft\<close> and
  \<^verbatim>\<open>_hard\<close>, the write operation reads both fields, makes one \<^verbatim>\<open>setrlimit\<close> call with
  the two values and returns the result of that call. Whatever the two values are, also
  a soft limit above the hard limit, nothing is thrown and the heap is unchanged: the
  kernel's verdict is the return code.
\<close>

theorem setrlimitnofiles_contract:
  assumes "r < length (heap s)" "H (obj_class (heap s ! r)) = Some d"
    and "(''_soft'', ''I'') \<in> set (cfields d)" "(''_hard'', ''I'') \<in> set (cfields d)"
    and "get_field (heap s ! r) ''_soft'' = Some (JInt soft)"
    and "get_field (heap s ! r) ''_hard'' = Some (JInt hard)"
  shows "\<exists>code k'.
     setrlimit_nofile L \<lparr>rlim_cur = scast soft, rlim_max = scast hard\<rparr> (kernel s) = (code, k') \<and>
     Java_org_mortbay_setuid_SetUID_setrlimitnofiles H L (Ref r) s = (Val code, s\<lparr>kernel := k'\<rparr>)"
  using assms setrlimitnofiles_ok [where H = H and L = L and s = s and d = d and r = r]
  by (cases "setrlimit_nofile L \<lparr>rlim_cur = scast soft, rlim_max = scast hard\<rparr> (kernel s)") simp

theorem setrlimitnofiles_contract_witness:
  "Java_org_mortbay_setuid_SetUID_setrlimitnofiles jetty_host example_libc (Ref 0)
     (example_RLimit_process 512 2048) =
     (Val 0, (example_RLimit_process 512 2048)
        \<lparr>kernel := (kernel example_process)\<lparr>k_nofile := \<lparr>rlim_cur = 512, rlim_max = 2048\<rparr>\<rparr>\<rparr>)
   \<and> Java_org_mortbay_setuid_SetUID_setrlimitnofiles jetty_host example_libc (Ref 0)
     (example_RLimit_process 4096 1024) = (Val (- 1), example_RLimit_process 4096 1024)"
proof -
  have h: "0 < length (heap (example_RLimit_process a b))"
      "jetty_host (obj_class (heap (example_RLimit_process a b) ! 0)) = Some RLimit_class"
      "(''_soft'', ''I'') \<in> set (cfields RLimit_class)"
      "(''_hard'', ''I'') \<in> set (cfields RLimit_class)"
      "get_field (heap (example_RLimit_process a b) ! 0) ''_soft'' = Some (JInt a)"
      "get_field (heap (example_RLimit_process a b) ! 0) ''_hard'' = Some (JInt b)" for a b
    by (simp_all add: example_RLimit_process_def RLimit_record_fields example_facts
        RLimit_class_def RLimit_fields_def)
  show ?thesis
    using setrlimitnofiles_contract [where H = jetty_host and L = example_libc and r = 0
          and s = "example_RLimit_process 512 2048", OF h]
      setrlimitnofiles_contract [where H = jetty_host and L = example_libc and r = 0
          and s = "example_RLimit_process 4096 1024", OF h]
    by (simp add: example_libc_def example_RLimit_process_def example_process_def)
qed

text \<open>
  Claim C7, as stated, fails where a limit does not fit an \<^verbatim>\<open>int\<close>: the kernel's soft
  limit is \<open>2^32 + 5\<close>, \<^verbatim>\<open>getrlimit\<close> succeeds, and the field \<^verbatim>\<open>_soft\<close> of the record
  that is returned holds 5, not the value that was queried.
\<close>

theorem getrlimitnofiles_field_differs:
  "getrlimit_nofile example_libc (kernel wide_limit_process)
       = (0, \<lparr>rlim_cur = 4294967301, rlim_max = - 1\<rparr>)
   \<and> (\<exists>ob.
       Java_org_mortbay_setuid_SetUID_getrlimitnofiles jetty_host example_libc wide_limit_process =
         (Val (Ref 1), wide_limit_process\<lparr>heap := heap wide_limit_process @ [ob]\<rparr>) \<and>
       get_field ob ''_soft'' = Some (JInt 5))
   \<and> sint (5 :: jint) \<noteq> uint (4294967301 :: rlim_t)"
proof -
  have g: "getrlimit_nofile example_libc (kernel wide_limit_process)
      = (0, \<lparr>rlim_cur = 4294967301, rlim_max = - 1\<rparr>)" "\<not> sint (0 :: jint) < 0"
    by (simp_all add: example_libc_def wide_limit_process_def)
  have l: "length (heap wide_limit_process) = 1"
    by (simp add: wide_limit_process_def)
  have "Java_org_mortbay_setuid_SetUID_getrlimitnofiles jetty_host example_libc wide_limit_process
       = (Val (Ref 1), wide_limit_process\<lparr>heap := heap wide_limit_process @
            [RLimit_record RLimit_class (ucast (4294967301 :: 64 word)) (ucast (- 1 :: 64 word))]\<rparr>)"
    using getrlimitnofiles_ok [where H = jetty_host and L = example_libc and s = wide_limit_process,
        OF example_facts(3,8) g]
    by (simp only: l rlimit.simps)
  moreover have "get_field (RLimit_record RLimit_class (ucast (4294967301 :: 64 word))
      (ucast (- 1 :: 64 word))) ''_soft'' = Some (JInt 5)"
    by (simp add: RLimit_record_fields)
  ultimately show ?thesis
    using g(1) by auto
qed

text \<open>
  Claim C7, amended. The read operation asks the kernel for the two limits on open
  files. When \<^verbatim>\<open>getrlimit\<close> fails, it throws one security exception with the message
  \<^verbatim>\<open>getrlimit failed\<close> and returns null. When it succeeds, on a host whose \<^verbatim>\<open>RLimit\<close>
  class binds the two fields, it returns a reference to a new object, leaves the heap
  below it as it was and throws nothing; the fields \<^verbatim>\<open>_soft\<close> and \<^verbatim>\<open>_hard\<close> of the
  object hold the two limits converted to a 32-bit \<^verbatim>\<open>int\<close>, that is the limit modulo
  \<open>2^32\<close> read as signed, which is the limit itself whenever it is at most \<open>2^31 - 1\<close>.
\<close>

theorem getrlimitnofiles_contract:
  assumes "H ''java/lang/SecurityException'' = Some e"
    and "H ''org/mortbay/setuid/RLimit'' = Some d" "binds d RLimit_fields"
    and "getrlimit_nofile L (kernel s) = (success, rlim)"
  shows "(sint success < 0 \<longrightarrow>
      Java_org_mortbay_setuid_SetUID_getrlimitnofiles H L s =
        (Val Null, s\<lparr>thrown := thrown s @ [(''java/lang/SecurityException'', ''getrlimit failed'')]\<rparr>))
    \<and> (\<not> sint success < 0 \<longrightarrow>
      (\<exists>ob soft hard.
         Java_org_mortbay_setuid_SetUID_getrlimitnofiles H L s =
           (Val (Ref (length (heap s))), s\<lparr>heap := heap s @ [ob]\<rparr>) \<and>
         get_field ob ''_soft'' = Some (JInt soft) \<and> soft = ucast (rlim_cur rlim) \<and>
         get_field ob ''_hard'' = Some (JInt hard) \<and> hard = ucast (rlim_max rlim) \<and>
         sint soft = (uint (rlim_cur rlim) + 2 ^ 31) mod 2 ^ 32 - 2 ^ 31 \<and>
         sint hard = (uint (rlim_max rlim) + 2 ^ 31) mod 2 ^ 32 - 2 ^ 31 \<and>
         (rlim_cur rlim \<le> 2147483647 \<longrightarrow> sint soft = uint (rlim_cur rlim)) \<and>
         (rlim_max rlim \<le> 2147483647 \<longrightarrow> sint hard = uint (rlim_max rlim))))"
proof (intro conjI impI)
  assume "sint success < 0"
  then show "Java_org_mortbay_setuid_SetUID_getrlimitnofiles H L s =
        (Val Null, s\<lparr>thrown := thrown s @ [(''java/lang/SecurityException'', ''getrlimit failed'')]\<rparr>)"
    using assms getrlimitnofiles_failed [where H = H and L = L and s = s] by simp
next
  assume ok: "\<not> sint success < 0"
  show "\<exists>ob soft hard.
         Java_org_mortbay_setuid_SetUID_getrlimitnofiles H L s =
           (Val (Ref (length (heap s))), s\<lparr>heap := heap s @ [ob]\<rparr>) \<and>
         get_field ob ''_soft'' = Some (JInt soft) \<and> soft = ucast (rlim_cur rlim) \<and>
         get_field ob ''_hard'' = Some (JInt hard) \<and> hard = ucast (rlim_max rlim) \<and>
         sint soft = (uint (rlim_cur rlim) + 2 ^ 31) mod 2 ^ 32 - 2 ^ 31 \<and>
         sint hard = (uint (rlim_max rlim) + 2 ^ 31) mod 2 ^ 32 - 2 ^ 31 \<and>
         (rlim_cur rlim \<le> 2147483647 \<longrightarrow> sint soft = uint (rlim_cur rlim)) \<and>
         (rlim_max rlim \<le> 2147483647 \<longrightarrow> sint hard = uint (rlim_max rlim))"
  proof (intro exI conjI impI)
    show "Java_org_mortbay_setuid_SetUID_getrlimitnofiles H L s =
        (Val (Ref (length (heap s))),
         s\<lparr>heap := heap s @ [RLimit_record d (ucast (rlim_cur rlim)) (ucast (rlim_max rlim))]\<rparr>)"
      using assms(2-4) ok by (rule getrlimitnofiles_ok)
    show "get_field (RLimit_record d (ucast (rlim_cur rlim)) (ucast (rlim_max rlim))) ''_soft''
        = Some (JInt (ucast (rlim_cur rlim)))"
      by (simp add: RLimit_record_fields)
    show "get_field (RLimit_record d (ucast (rlim_cur rlim)) (ucast (rlim_max rlim))) ''_hard''
        = Some (JInt (ucast (rlim_max rlim)))"
      by (simp add: RLimit_record_fields)
    show "sint (ucast (rlim_cur rlim) :: jint) = (uint (rlim_cur rlim) + 2 ^ 31) mod 2 ^ 32 - 2 ^ 31"
      by (rule sint_of_rlim)
    show "sint (ucast (rlim_max rlim) :: jint) = (uint (rlim_max rlim) + 2 ^ 31) mod 2 ^ 32 - 2 ^ 31"
      by (rule sint_of_rlim)
    show "sint (ucast (rlim_cur rlim) :: jint) = uint (rlim_cur rlim)"
      if "rlim_cur rlim \<le> 2147483647"
      using that by (rule sint_of_small_rlim)
    show "sint (ucast (rlim_max rlim) :: jint) = uint (rlim_max rlim)"
      if "rlim_max rlim \<le> 2147483647"
      using that by (rule sint_of_small_rlim)
  qed simp_all
qed

theorem getrlimitnofiles_contract_witness:
  "Java_org_mortbay_setuid_SetUID_getrlimitnofiles jetty_host failing_getrlimit_libc example_process =
     (Val Null, example_process\<lparr>thrown := [(''java/lang/SecurityException'', ''getrlimit failed'')]\<rparr>)
   \<and> (\<exists>ob.
     Java_org_mortbay_setuid_SetUID_getrlimitnofiles jetty_host example_libc example_process =
       (Val (Ref 0), example_process\<lparr>heap := [ob]\<rparr>) \<and>
     get_field ob ''_soft'' = Some (JInt 1024) \<and> get_field ob ''_hard'' = Some (JInt 4096))
   \<and> (\<exists>ob soft hard.
     Java_org_mortbay_setuid_SetUID_getrlimitnofiles jetty_host example_libc wide_limit_process =
       (Val (Ref 1), wide_limit_process\<lparr>heap := heap wide_limit_process @ [ob]\<rparr>) \<and>
     get_field ob ''_soft'' = Some (JInt soft) \<and> get_field ob ''_hard'' = Some (JInt hard) \<and>
     sint soft = 5 \<and> sint hard = - 1)"
proof -
  have f: "getrlimit_nofile failing_getrlimit_libc (kernel example_process)
      = (- 1, \<lparr>rlim_cur = 1024, rlim_max = 4096\<rparr>)"
    by (simp add: failing_getrlimit_libc_def example_process_def)
  have g: "getrlimit_nofile example_libc (kernel example_process)
      = (0, \<lparr>rlim_cur = 1024, rlim_max = 4096\<rparr>)"
    by (simp add: example_libc_def example_process_def)
  have w: "getrlimit_nofile example_libc (kernel wide_limit_process)
      = (0, \<lparr>rlim_cur = 4294967301, rlim_max = - 1\<rparr>)"
    by (simp add: example_libc_def wide_limit_process_def)
  have l: "length (heap wide_limit_process) = 1"
    by (simp add: wide_limit_process_def)
  have a: "Java_org_mortbay_setuid_SetUID_getrlimitnofiles jetty_host failing_getrlimit_libc
        example_process =
      (Val Null, example_process\<lparr>thrown := [(''java/lang/SecurityException'', ''getrlimit failed'')]\<rparr>)"
    using getrlimitnofiles_contract [where H = jetty_host and L = failing_getrlimit_libc
          and s = example_process, OF example_facts(5,3,8) f]
    by (simp add: example_process_def)
  have b: "\<exists>ob.
     Java_org_mortbay_setuid_SetUID_getrlimitnofiles jetty_host example_libc example_process =
       (Val (Ref 0), example_process\<lparr>heap := [ob]\<rparr>) \<and>
     get_field ob ''_soft'' = Some (JInt 1024) \<and> get_field ob ''_hard'' = Some (JInt 4096)"
    using getrlimitnofiles_contract [where H = jetty_host and L = example_libc
          and s = example_process, OF example_facts(5,3,8) g]
    by (simp add: example_process_def)
  have c: "\<exists>ob soft hard.
     Java_org_mortbay_setuid_SetUID_getrlimitnofiles jetty_host example_libc wide_limit_process =
       (Val (Ref 1), wide_limit_process\<lparr>heap := heap wide_limit_process @ [ob]\<rparr>) \<and>
     get_field ob ''_soft'' = Some (JInt soft) \<and> get_field ob ''_hard'' = Some (JInt hard) \<and>
     sint soft = 5 \<and> sint hard = - 1"
    using getrlimitnofiles_contract [where H = jetty_host and L = example_libc
          and s = wide_limit_process, OF example_facts(5,3,8) w]
    by (auto simp: l unlimited)
  from a b c show ?thesis by blast
qed

text \<open>
  Claim C8. On a host whose \<^verbatim>\<open>RLimit\<close> class binds the two fields, and over a kernel in
  which a successful \<^verbatim>\<open>setrlimit\<close> stores the pair it was given and a failed one changes
  nothing, reading the limits, writing the record just read and reading again gives the
  same soft and hard values as the first read, in every state in which the first read
  returns a record. The values compared are the \<^verbatim>\<open>int\<close> fields of the two records: a
  kernel limit that does not fit an \<^verbatim>\<open>int\<close> may be replaced by the write, and the value
  read back is still the one read first.
\<close>

theorem read_write_read:
  assumes "H ''org/mortbay/setuid/RLimit'' = Some d" "binds d RLimit_fields"
    and "\<forall>lim k. getrlimit_nofile L (snd (setrlimit_nofile L lim k)) =
           (if fst (setrlimit_nofile L lim k) = 0 then (0, lim) else getrlimit_nofile L k)"
    and "Java_org_mortbay_setuid_SetUID_getrlimitnofiles H L s = (Val (Ref r1), s1)"
  shows "\<exists>code s2 r3 s3 soft hard.
     Java_org_mortbay_setuid_SetUID_setrlimitnofiles H L (Ref r1) s1 = (Val code, s2) \<and>
     Java_org_mortbay_setuid_SetUID_getrlimitnofiles H L s2 = (Val (Ref r3), s3) \<and>
     get_field (heap s1 ! r1) ''_soft'' = Some (JInt soft) \<and>
     get_field (heap s3 ! r3) ''_soft'' = Some (JInt soft) \<and>
     get_field (heap s1 ! r1) ''_hard'' = Some (JInt hard) \<and>
     get_field (heap s3 ! r3) ''_hard'' = Some (JInt hard)"
proof -
  obtain success rlim where g: "getrlimit_nofile L (kernel s) = (success, rlim)"
    by (cases "getrlimit_nofile L (kernel s)")
  have ok: "\<not> sint success < 0"
    using getrlimitnofiles_failed_null [where L = L and s = s and H = H, OF g] assms(4) by auto
  define x :: jint where "x = ucast (rlim_cur rlim)"
  define y :: jint where "y = ucast (rlim_max rlim)"
  define lim where "lim = \<lparr>rlim_cur = scast x, rlim_max = scast y\<rparr>"
  have first: "r1 = length (heap s)" "s1 = s\<lparr>heap := heap s @ [RLimit_record d x y]\<rparr>"
    using getrlimitnofiles_ok [where H = H and L = L and s = s, OF assms(1,2) g ok] assms(4)
    by (simp_all add: x_def y_def)
  have f: "(''_soft'', ''I'') \<in> set (cfields d)" "(''_hard'', ''I'') \<in> set (cfields d)"
    using binds_RLimit [OF assms(2)] by simp_all
  obtain code k' where w: "setrlimit_nofile L lim (kernel s) = (code, k')"
    by (cases "setrlimit_nofile L lim (kernel s)")
  define s2 where "s2 = s1\<lparr>kernel := k'\<rparr>"
  have "r1 < length (heap s1)" "H (obj_class (heap s1 ! r1)) = Some d"
      "get_field (heap s1 ! r1) ''_soft'' = Some (JInt x)"
      "get_field (heap s1 ! r1) ''_hard'' = Some (JInt y)"
    using assms(1) by (simp_all add: first RLimit_record_fields)
  note obj = this
  have "kernel s1 = kernel s" by (simp add: first)
  with w have wr: "Java_org_mortbay_setuid_SetUID_setrlimitnofiles H L (Ref r1) s1 = (Val code, s2)"
    using setrlimitnofiles_ok [where H = H and L = L and s = s1 and d = d and r = r1, OF obj(1,2) f obj(3,4)]
    by (simp add: lim_def s2_def)
  obtain success' rlim' where g': "getrlimit_nofile L (kernel s2) = (success', rlim')"
    by (cases "getrlimit_nofile L (kernel s2)")
  have "getrlimit_nofile L k' = (if code = 0 then (0, lim) else (success, rlim))"
    using assms(3) [rule_format, of lim "kernel s"] w g by simp
  with g' have after: "\<not> sint success' < 0" "(ucast (rlim_cur rlim') :: jint) = x"
      "(ucast (rlim_max rlim') :: jint) = y"
    using ok by (auto simp: s2_def lim_def x_def y_def int_of_rlim_of_int split: if_splits)
  have again: "Java_org_mortbay_setuid_SetUID_getrlimitnofiles H L s2 =
      (Val (Ref (length (heap s2))), s2\<lparr>heap := heap s2 @ [RLimit_record d x y]\<rparr>)"
    using getrlimitnofiles_ok [where H = H and L = L and s = s2, OF assms(1,2) g' after(1)] after(2,3)
    by simp
  show ?thesis
    using wr again obj(3,4) by (simp add: RLimit_record_fields)
qed

theorem read_write_read_witness:
  "\<exists>code s1 s2 r3 s3.
     Java_org_mortbay_setuid_SetUID_getrlimitnofiles jetty_host example_libc wide_limit_process
       = (Val (Ref 1), s1) \<and>
     Java_org_mortbay_setuid_SetUID_setrlimitnofiles jetty_host example_libc (Ref 1) s1 = (Val code, s2) \<and>
     Java_org_mortbay_setuid_SetUID_getrlimitnofiles jetty_host example_libc s2 = (Val (Ref r3), s3) \<and>
     get_field (heap s1 ! 1) ''_soft'' = Some (JInt 5) \<and>
     get_field (heap s3 ! r3) ''_soft'' = Some (JInt 5) \<and>
     get_field (heap s1 ! 1) ''_hard'' = Some (JInt (- 1)) \<and>
     get_field (heap s3 ! r3) ''_hard'' = Some (JInt (- 1))"
proof -
  have k: "\<forall>lim k. getrlimit_nofile example_libc (snd (setrlimit_nofile example_libc lim k)) =
           (if fst (setrlimit_nofile example_libc lim k) = 0 then (0, lim)
            else getrlimit_nofile example_libc k)"
    by (simp add: example_libc_def)
  have g: "getrlimit_nofile example_libc (kernel wide_limit_process)
      = (0, \<lparr>rlim_cur = 4294967301, rlim_max = - 1\<rparr>)" "\<not> sint (0 :: jint) < 0"
    by (simp_all add: example_libc_def wide_limit_process_def)
  have l: "length (heap wide_limit_process) = 1"
    by (simp add: wide_limit_process_def)
  have first: "Java_org_mortbay_setuid_SetUID_getrlimitnofiles jetty_host example_libc wide_limit_process
       = (Val (Ref 1), wide_limit_process\<lparr>heap := heap wide_limit_process @
            [RLimit_record RLimit_class (ucast (4294967301 :: 64 word)) (ucast (- 1 :: 64 word))]\<rparr>)"
    using getrlimitnofiles_ok [where H = jetty_host and L = example_libc and s = wide_limit_process,
        OF example_facts(3,8) g]
    by (simp only: l rlimit.simps)
  show ?thesis
    using read_write_read [where H = jetty_host and L = example_libc and s = wide_limit_process,
        OF example_facts(3,8) k first] first
    by (auto simp: l nth_append RLimit_record_fields unlimited)
qed

text \<open>
  Claim C9. Both resource-limit operations pass the two limits through a 32-bit signed
  \<^verbatim>\<open>int\<close>. The read operation stores in each field the kernel's value cut down
  modulo \<open>2^32\<close> and read as signed, so a limit above \<open>2^31 - 1\<close> does not arrive as it
  is, and the sentinel for no limit (all bits set) arrives as \<open>-1\<close>. The write operation
  hands \<^verbatim>\<open>setrlimit\<close> each field widened from \<^verbatim>\<open>int\<close> with its sign, that is the
  field's signed value modulo \<open>2^64\<close>.
\<close>

theorem rlimit_crosses_int:
  assumes "H ''org/mortbay/setuid/RLimit'' = Some d" "binds d RLimit_fields"
    and "getrlimit_nofile L (kernel s) = (success, rlim)" "\<not> sint success < 0"
    and "r < length (heap s)" "obj_class (heap s ! r) = ''org/mortbay/setuid/RLimit''"
    and "get_field (heap s ! r) ''_soft'' = Some (JInt soft)"
    and "get_field (heap s ! r) ''_hard'' = Some (JInt hard)"
  shows "(\<exists>ob x y.
       Java_org_mortbay_setuid_SetUID_getrlimitnofiles H L s =
         (Val (Ref (length (heap s))), s\<lparr>heap := heap s @ [ob]\<rparr>) \<and>
       get_field ob ''_soft'' = Some (JInt x) \<and>
       get_field ob ''_hard'' = Some (JInt y) \<and>
       sint x = (uint (rlim_cur rlim) + 2 ^ 31) mod 2 ^ 32 - 2 ^ 31 \<and>
       sint y = (uint (rlim_max rlim) + 2 ^ 31) mod 2 ^ 32 - 2 ^ 31 \<and>
       (2147483647 < rlim_cur rlim \<longrightarrow> sint x \<noteq> uint (rlim_cur rlim)) \<and>
       (rlim_cur rlim = - 1 \<longrightarrow> x = - 1))
    \<and> (\<exists>cur max.
       Java_org_mortbay_setuid_SetUID_setrlimitnofiles H L (Ref r) s =
         (Val (fst (setrlimit_nofile L \<lparr>rlim_cur = cur, rlim_max = max\<rparr> (kernel s))),
          s\<lparr>kernel := snd (setrlimit_nofile L \<lparr>rlim_cur = cur, rlim_max = max\<rparr> (kernel s))\<rparr>) \<and>
       uint cur = sint soft mod 2 ^ 64 \<and> uint max = sint hard mod 2 ^ 64)"
proof (intro conjI)
  have big: "sint (ucast (rlim_cur rlim) :: jint) \<noteq> uint (rlim_cur rlim)"
    if "2147483647 < rlim_cur rlim"
  proof -
    have "2147483647 < uint (rlim_cur rlim)" using that by (simp add: word_less_def)
    moreover have "sint (ucast (rlim_cur rlim) :: jint) \<le> 2147483647"
      using sint_lt [of "ucast (rlim_cur rlim) :: jint"] by simp
    ultimately show ?thesis by linarith
  qed
  show "\<exists>ob x y.
       Java_org_mortbay_setuid_SetUID_getrlimitnofiles H L s =
         (Val (Ref (length (heap s))), s\<lparr>heap := heap s @ [ob]\<rparr>) \<and>
       get_field ob ''_soft'' = Some (JInt x) \<and>
       get_field ob ''_hard'' = Some (JInt y) \<and>
       sint x = (uint (rlim_cur rlim) + 2 ^ 31) mod 2 ^ 32 - 2 ^ 31 \<and>
       sint y = (uint (rlim_max rlim) + 2 ^ 31) mod 2 ^ 32 - 2 ^ 31 \<and>
       (2147483647 < rlim_cur rlim \<longrightarrow> sint x \<noteq> uint (rlim_cur rlim)) \<and>
       (rlim_cur rlim = - 1 \<longrightarrow> x = - 1)"
  proof (intro exI conjI impI)
    show "Java_org_mortbay_setuid_SetUID_getrlimitnofiles H L s =
        (Val (Ref (length (heap s))),
         s\<lparr>heap := heap s @ [RLimit_record d (ucast (rlim_cur rlim)) (ucast (rlim_max rlim))]\<rparr>)"
      using assms(1-4) by (rule getrlimitnofiles_ok)
    show "get_field (RLimit_record d (ucast (rlim_cur rlim)) (ucast (rlim_max rlim))) ''_soft''
        = Some (JInt (ucast (rlim_cur rlim)))"
      by (simp add: RLimit_record_fields)
    show "get_field (RLimit_record d (ucast (rlim_cur rlim)) (ucast (rlim_max rlim))) ''_hard''
        = Some (JInt (ucast (rlim_max rlim)))"
      by (simp add: RLimit_record_fields)
    show "sint (ucast (rlim_cur rlim) :: jint) = (uint (rlim_cur rlim) + 2 ^ 31) mod 2 ^ 32 - 2 ^ 31"
      by (rule sint_of_rlim)
    show "sint (ucast (rlim_max rlim) :: jint) = (uint (rlim_max rlim) + 2 ^ 31) mod 2 ^ 32 - 2 ^ 31"
      by (rule sint_of_rlim)
    show "sint (ucast (rlim_cur rlim) :: jint) \<noteq> uint (rlim_cur rlim)"
      if "2147483647 < rlim_cur rlim"
      using that by (rule big)
    show "(ucast (rlim_cur rlim) :: jint) = - 1" if "rlim_cur rlim = - 1"
      unfolding that by (rule bit_word_eqI) (auto simp: bit_simps)
  qed
next
  have f: "(''_soft'', ''I'') \<in> set (cfields d)" "(''_hard'', ''I'') \<in> set (cfields d)"
    using binds_RLimit [OF assms(2)] by simp_all
  show "\<exists>cur max.
       Java_org_mortbay_setuid_SetUID_setrlimitnofiles H L (Ref r) s =
         (Val (fst (setrlimit_nofile L \<lparr>rlim_cur = cur, rlim_max = max\<rparr> (kernel s))),
          s\<lparr>kernel := snd (setrlimit_nofile L \<lparr>rlim_cur = cur, rlim_max = max\<rparr> (kernel s))\<rparr>) \<and>
       uint cur = sint soft mod 2 ^ 64 \<and> uint max = sint hard mod 2 ^ 64"
    using assms f setrlimitnofiles_ok [where H = H and L = L and s = s and d = d and r = r]
      rlim_of_int [of soft] rlim_of_int [of hard]
    by auto
qed

theorem rlimit_crosses_int_witness:
  "(\<exists>ob x y.
       Java_org_mortbay_setuid_SetUID_getrlimitnofiles jetty_host example_libc wide_limit_process =
         (Val (Ref 1), wide_limit_process\<lparr>heap := heap wide_limit_process @ [ob]\<rparr>) \<and>
       get_field ob ''_soft'' = Some (JInt x) \<and>
       get_field ob ''_hard'' = Some (JInt y) \<and>
       sint x = 5 \<and> sint y = - 1)
    \<and> (\<exists>cur max.
       Java_org_mortbay_setuid_SetUID_setrlimitnofiles jetty_host example_libc (Ref 0) wide_limit_process =
         (Val (fst (setrlimit_nofile example_libc \<lparr>rlim_cur = cur, rlim_max = max\<rparr>
                      (kernel wide_limit_process))),
          wide_limit_process\<lparr>kernel := snd (setrlimit_nofile example_libc
              \<lparr>rlim_cur = cur, rlim_max = max\<rparr> (kernel wide_limit_process))\<rparr>) \<and>
       uint cur = 5 \<and> uint max = 18446744073709551615)"
proof -
  have g: "getrlimit_nofile example_libc (kernel wide_limit_process)
      = (0, \<lparr>rlim_cur = 4294967301, rlim_max = - 1\<rparr>)" "\<not> sint (0 :: jint) < 0"
    by (simp_all add: example_libc_def wide_limit_process_def)
  have h: "0 < length (heap wide_limit_process)"
      "obj_class (heap wide_limit_process ! 0) = ''org/mortbay/setuid/RLimit''"
      "get_field (heap wide_limit_process ! 0) ''_soft'' = Some (JInt 5)"
      "get_field (heap wide_limit_process ! 0) ''_hard'' = Some (JInt (- 1))"
    by (simp_all add: wide_limit_process_def RLimit_record_fields)
  have l: "length (heap wide_limit_process) = 1"
    by (simp add: wide_limit_process_def)
  show ?thesis
    using rlimit_crosses_int [where H = jetty_host and L = example_libc and s = wide_limit_process
        and r = 0, OF example_facts(3,8) g h]
    by (auto simp: l unlimited)
qed

subsection \<open>Lookup by name and lookup by id\<close>

text \<open>
  Claim C10. A lookup by name and a lookup by id that reach the same database entry
  construct the same record. For users the two entry points behave alike in every
  respect, on every host: they return the same reference and leave the same state, so
  the seven fields of the two records are equal. For groups they return the same
  reference and leave the same heap, so the four fields are equal; only the wording of
  two error messages differs between the two.
\<close>

theorem lookup_by_name_and_by_id_agree:
  assumes "getpwnam L uname (kernel s) = Some pw" "getpwuid L uid (kernel s) = Some pw"
    and "getgrnam L gname (kernel s) = Some gr" "getgrgid L gid (kernel s) = Some gr"
  shows "Java_org_mortbay_setuid_SetUID_getpwnam H L uname s =
       Java_org_mortbay_setuid_SetUID_getpwuid H L uid s
     \<and> fst (Java_org_mortbay_setuid_SetUID_getgrnam H L gname s) =
         fst (Java_org_mortbay_setuid_SetUID_getgrgid H L gid s)
     \<and> heap (snd (Java_org_mortbay_setuid_SetUID_getgrnam H L gname s)) =
         heap (snd (Java_org_mortbay_setuid_SetUID_getgrgid H L gid s))"
proof (intro conjI)
  show "Java_org_mortbay_setuid_SetUID_getpwnam H L uname s =
       Java_org_mortbay_setuid_SetUID_getpwuid H L uid s"
    using assms(1,2)
    by (simp add: Java_org_mortbay_setuid_SetUID_getpwnam_def
        Java_org_mortbay_setuid_SetUID_getpwuid_def jbind_def libc_read_def ret_def
        GetStringUTFChars_def)
next
  show "fst (Java_org_mortbay_setuid_SetUID_getgrnam H L gname s) =
         fst (Java_org_mortbay_setuid_SetUID_getgrgid H L gid s)"
    using assms(3,4)
    by (simp add: Java_org_mortbay_setuid_SetUID_getgrnam_def
        Java_org_mortbay_setuid_SetUID_getgrgid_def jni_defs
        throwNewJavaSecurityException_def throwNewJavaException_def
        split: prod.splits res.splits option.splits if_splits jref.splits)
next
  show "heap (snd (Java_org_mortbay_setuid_SetUID_getgrnam H L gname s)) =
         heap (snd (Java_org_mortbay_setuid_SetUID_getgrgid H L gid s))"
    using assms(3,4)
    by (simp add: Java_org_mortbay_setuid_SetUID_getgrnam_def
        Java_org_mortbay_setuid_SetUID_getgrgid_def jni_defs
        throwNewJavaSecurityException_def throwNewJavaException_def
        split: prod.splits res.splits option.splits if_splits jref.splits)
qed

theorem lookup_by_name_and_by_id_agree_witness:
  "Java_org_mortbay_setuid_SetUID_getpwnam jetty_host example_libc ''jetty'' example_process =
       Java_org_mortbay_setuid_SetUID_getpwuid jetty_host example_libc 1000 example_process
   \<and> fst (Java_org_mortbay_setuid_SetUID_getgrnam jetty_host example_libc ''wheel'' example_process) =
       fst (Java_org_mortbay_setuid_SetUID_getgrgid jetty_host example_libc 10 example_process)
   \<and> heap (snd (Java_org_mortbay_setuid_SetUID_getgrnam jetty_host example_libc ''wheel'' example_process)) =
       heap (snd (Java_org_mortbay_setuid_SetUID_getgrgid jetty_host example_libc 10 example_process))
   \<and> fst (Java_org_mortbay_setuid_SetUID_getpwuid jetty_host example_libc 1000 example_process)
       = Val (Ref 0)
   \<and> fst (Java_org_mortbay_setuid_SetUID_getgrgid jetty_host example_libc 10 example_process)
       = Val (Ref 0)"
proof -
  let ?jetty = "\<lparr>pw_name = ''jetty'', pw_passwd = ''x'', pw_uid = 1000, pw_gid = 100,
       pw_gecos = ''Jetty'', pw_dir = ''/home/jetty'', pw_shell = ''/bin/false''\<rparr>"
  let ?wheel = "\<lparr>gr_name = ''wheel'', gr_passwd = ''x'', gr_gid = 10,
       gr_mem = Some [Some ''root'', Some ''jetty'', None]\<rparr>"
  have e: "getpwnam example_libc ''jetty'' (kernel example_process) = Some ?jetty"
      "getpwuid example_libc 1000 (kernel example_process) = Some ?jetty"
      "getgrnam example_libc ''wheel'' (kernel example_process) = Some ?wheel"
      "getgrgid example_libc 10 (kernel example_process) = Some ?wheel"
    by (simp_all add: example_libc_def example_passwd_def example_group_def)
  have t: "terminated ?wheel" by (simp add: terminated_def members_def)
  show ?thesis
    using lookup_by_name_and_by_id_agree [where L = example_libc and s = example_process
        and H = jetty_host, OF e]
      getpwuid_found [where H = jetty_host and L = example_libc and s = example_process,
        OF example_facts(1,6) e(2)]
      getgrgid_found [where H = jetty_host and L = example_libc and s = example_process,
        OF example_facts(2,7,4) e(4) t]
    by (simp add: example_process_def)
qed

end
